theory Spec2Isabelle
  imports Main "HOL-Library.Word"
begin

section \<open>Machine types\<close>

text \<open>
  The sources are C++ for an LP64 platform: \<^verbatim>\<open>uint16_t\<close>, \<^verbatim>\<open>uint32_t\<close> and
  \<^verbatim>\<open>size_t\<close> are words of 16, 32 and 64 bits whose arithmetic wraps around;
  \<^verbatim>\<open>int\<close> is a 32-bit and \<^verbatim>\<open>long\<close> a 64-bit two's complement value.
\<close>

type_synonym u8 = "8 word"
type_synonym u16 = "16 word"
type_synonym u32 = "32 word"
type_synonym u64 = "64 word"

section \<open>DirectMapping and DirectMappingAllocator (TextureAtlas.h)\<close>

text \<open>
  \<^verbatim>\<open>struct DirectMapping { uint32_t baseIndex = 0; uint32_t count = 0; ... }\<close>
\<close>

record DirectMapping =
  baseIndex :: u32
  count :: u32

text \<open>\<^verbatim>\<open>constexpr operator bool() const noexcept { return count != 0; }\<close>\<close>

definition to_bool :: "DirectMapping \<Rightarrow> bool" where
  "to_bool m = (count m \<noteq> 0)"

text \<open>The value-initialised \<^verbatim>\<open>DirectMapping {}\<close>.\<close>

definition emptyMapping :: DirectMapping where
  "emptyMapping = \<lparr>baseIndex = 0, count = 0\<rparr>"

text \<open>
  \<^verbatim>\<open>struct DirectMappingAllocator { uint32_t currentlyAllocatedCount = 0; bool enabled = true; ... }\<close>
\<close>

record DirectMappingAllocator =
  currentlyAllocatedCount :: u32
  enabled :: bool

definition newAllocator :: DirectMappingAllocator where
  "newAllocator = \<lparr>currentlyAllocatedCount = 0, enabled = True\<rparr>"

text \<open>
  \<^verbatim>\<open>
  DirectMapping allocate(uint32_t count)
  {
      if (!enabled)
          return DirectMapping {};
      uint32_t const baseIndex = currentlyAllocatedCount;
      currentlyAllocatedCount += count;
      return DirectMapping { baseIndex, count };
  }
  \<close>
  The method mutates the allocator; the model returns the mapping together with the
  allocator after the call.
\<close>

definition allocate :: "DirectMappingAllocator \<Rightarrow> u32 \<Rightarrow> DirectMapping \<times> DirectMappingAllocator" where
  "allocate a n =
     (if \<not> enabled a then (emptyMapping, a)
      else (\<lparr>baseIndex = currentlyAllocatedCount a, count = n\<rparr>,
            a\<lparr>currentlyAllocatedCount := currentlyAllocatedCount a + n\<rparr>))"

text \<open>A sequence of \<^verbatim>\<open>allocate\<close> calls on one allocator, in order.\<close>

fun allocateAll :: "DirectMappingAllocator \<Rightarrow> u32 list \<Rightarrow> DirectMapping list \<times> DirectMappingAllocator" where
  "allocateAll a [] = ([], a)"
| "allocateAll a (n # ns) =
     (case allocate a n of (m, a') \<Rightarrow>
        (case allocateAll a' ns of (ms, a'') \<Rightarrow> (m # ms, a'')))"

section \<open>The ring buffer (crispy/ring.h)\<close>

text \<open>
  \<^verbatim>\<open>class basic_ring { ... Vector _storage; std::size_t _zero = 0; };\<close>
  The storage vector is a list; \<open>zero\<close> is the physical index of the logical
  origin.
\<close>

record 'a basic_ring =
  storage :: "'a list"
  zero :: u64

text \<open>\<^verbatim>\<open>std::size_t size() const noexcept { return _storage.size(); }\<close>\<close>

definition size_ring :: "'a basic_ring \<Rightarrow> u64" where
  "size_ring r = of_nat (length (storage r))"

text \<open>
  \<^verbatim>\<open>
  value_type& operator[](offset_type i) noexcept
  {
      return _storage[size_t(offset_type(_zero + size()) + i) % size()];
  }
  \<close>
  \<^verbatim>\<open>offset_type\<close> is \<^verbatim>\<open>long\<close>: the conversions between \<^verbatim>\<open>size_t\<close> and
  \<^verbatim>\<open>long\<close> keep the 64 bits, and the remainder is the unsigned one. The remainder by
  the size of an empty ring is undefined in C++; the model returns \<open>None\<close> there.
\<close>

definition at_ring :: "'a basic_ring \<Rightarrow> u64 \<Rightarrow> 'a option" where
  "at_ring r i =
     (if size_ring r = 0 then None
      else Some (storage r ! unat ((zero r + size_ring r + i) mod size_ring r)))"

text \<open>The logical element order: \<^verbatim>\<open>ring[0], ..., ring[size() - 1]\<close>.\<close>

definition elements :: "'a basic_ring \<Rightarrow> 'a option list" where
  "elements r = map (\<lambda>i. at_ring r (of_nat i)) [0..<length (storage r)]"

text \<open>
  \<^verbatim>\<open>
  // positvie count rotates right, negative count rotates left
  void rotate(int count) noexcept { _zero = size_t(offset_type(_zero + size()) - count) % size(); }
  \<close>
  \<open>count\<close> is a 32-bit \<^verbatim>\<open>int\<close>, sign-extended to \<^verbatim>\<open>long\<close> (\<open>scast\<close>) for
  the subtraction; the difference is converted to \<^verbatim>\<open>size_t\<close> (the same 64 bits, so a
  negative difference becomes a value just below \<open>2 ^ 64\<close>) and only then reduced modulo
  the size.
\<close>

definition rotate_ring :: "'a basic_ring \<Rightarrow> 32 word \<Rightarrow> 'a basic_ring option" where
  "rotate_ring r n =
     (if size_ring r = 0 then None
      else Some (r\<lparr>zero := (zero r + size_ring r - scast n) mod size_ring r\<rparr>))"

text \<open>
  \<^verbatim>\<open>
  void rotate_left(std::size_t count) noexcept { _zero = (_zero + size() + count) % size(); }
  void rotate_right(std::size_t count) noexcept { _zero = (_zero + size() - count) % size(); }
  \<close>
\<close>

definition rotate_left :: "'a basic_ring \<Rightarrow> u64 \<Rightarrow> 'a basic_ring option" where
  "rotate_left r n =
     (if size_ring r = 0 then None
      else Some (r\<lparr>zero := (zero r + size_ring r + n) mod size_ring r\<rparr>))"

definition rotate_right :: "'a basic_ring \<Rightarrow> u64 \<Rightarrow> 'a basic_ring option" where
  "rotate_right r n =
     (if size_ring r = 0 then None
      else Some (r\<lparr>zero := (zero r + size_ring r - n) mod size_ring r\<rparr>))"

text \<open>The ring of scenario 5 of the specification: five elements, origin 0.\<close>

definition ring5 :: "char basic_ring" where
  "ring5 = \<lparr>storage = ''ABCDE'', zero = 0\<rparr>"

section \<open>Failures\<close>

text \<open>
  The ways an operation of the model ends without a result. \<open>RequireFailed\<close> is a
  failed \<^verbatim>\<open>Require(...)\<close> check. The others are places where the C++ has no defined
  result: an unchecked \<^verbatim>\<open>operator[]\<close> beyond the end of a vector, a conversion to
  \<^verbatim>\<open>uint32_t\<close> of a \<^verbatim>\<open>double\<close> that is \<open>2 ^ 32\<close> or more, infinite or not
  a number, an integer division by zero, \<^verbatim>\<open>.value()\<close> on an empty optional, and a
  cache with neither a free entry nor an entry to evict.
\<close>

datatype error = RequireFailed | OutOfBounds | ConversionOutOfRange | DivisionByZero
  | BadOptionalAccess | CacheExhausted

section \<open>Tile slicing (TextureAtlas.h)\<close>

text \<open>
  \<^verbatim>\<open>ImageSize\<close> holds a boxed unsigned \<^verbatim>\<open>Width\<close> and \<^verbatim>\<open>Height\<close>.
\<close>

record ImageSize =
  width :: u32
  height :: u32

text \<open>\<^verbatim>\<open>struct TileSliceIndex { uint32_t sliceIndex; uint32_t beginX; uint32_t endX; };\<close>\<close>

record TileSliceIndex =
  sliceIndex :: u32
  beginX :: u32
  endX :: u32

text \<open>
  The \<^verbatim>\<open>Container\<close> that \<^verbatim>\<open>sliced(tileWidth, offsetX, bitmapSize)\<close> returns, and
  its \<^verbatim>\<open>iterator { Width tileWidth; TileSliceIndex value; }\<close>.
\<close>

record Container =
  tileWidth :: u32
  offsetX :: u32
  bitmapSize :: ImageSize

record slice_iterator =
  it_tileWidth :: u32
  it_value :: TileSliceIndex

definition sliced :: "u32 \<Rightarrow> u32 \<Rightarrow> ImageSize \<Rightarrow> Container" where
  "sliced tw off bs = \<lparr>tileWidth = tw, offsetX = off, bitmapSize = bs\<rparr>"

text \<open>
  \<^verbatim>\<open>
  constexpr uint32_t offsetForEndX() const noexcept
  {
      auto const c = unbox<uint32_t>(bitmapSize.width) % unbox<uint32_t>(tileWidth);
      return unbox<uint32_t>(bitmapSize.width) + c;
  }
  \<close>
  The remainder by a tile width of 0 is undefined.
\<close>

definition offsetForEndX :: "Container \<Rightarrow> error + u32" where
  "offsetForEndX c =
     (if tileWidth c = 0 then Inl DivisionByZero
      else Inr (width (bitmapSize c) + width (bitmapSize c) mod tileWidth c))"

text \<open>
  \<^verbatim>\<open>begin()\<close> is \<^verbatim>\<open>iterator { tileWidth, TileSliceIndex { 0, offsetX, unbox<uint32_t>(tileWidth) } }\<close>,
  \<^verbatim>\<open>end()\<close> is \<^verbatim>\<open>iterator { tileWidth, TileSliceIndex { 0, offsetForEndX(), offsetForEndX() } }\<close>.
\<close>

definition begin_it :: "Container \<Rightarrow> slice_iterator" where
  "begin_it c =
     \<lparr>it_tileWidth = tileWidth c,
      it_value = \<lparr>sliceIndex = 0, beginX = offsetX c, endX = tileWidth c\<rparr>\<rparr>"

definition end_it :: "Container \<Rightarrow> error + slice_iterator" where
  "end_it c =
     (case offsetForEndX c of
        Inl e \<Rightarrow> Inl e
      | Inr e \<Rightarrow> Inr \<lparr>it_tileWidth = tileWidth c,
                      it_value = \<lparr>sliceIndex = 0, beginX = e, endX = e\<rparr>\<rparr>)"

text \<open>
  \<^verbatim>\<open>operator!=\<close> compares \<^verbatim>\<open>value.beginX\<close> only; \<^verbatim>\<open>operator++\<close> is
  \<^verbatim>\<open>value.sliceIndex++; value.beginX = value.endX; value.endX += unbox<uint32_t>(tileWidth);\<close>
\<close>

definition it_ne :: "slice_iterator \<Rightarrow> slice_iterator \<Rightarrow> bool" where
  "it_ne a b = (beginX (it_value a) \<noteq> beginX (it_value b))"

definition it_next :: "slice_iterator \<Rightarrow> slice_iterator" where
  "it_next it =
     it\<lparr>it_value :=
          \<lparr>sliceIndex = sliceIndex (it_value it) + 1,
           beginX = endX (it_value it),
           endX = endX (it_value it) + it_tileWidth it\<rparr>\<rparr>"

text \<open>
  The range-based loop \<^verbatim>\<open>for (auto it = begin(); it != end(); ++it) yield *it;\<close>.
  The loop need not end, so the model counts the evaluations of the loop condition it may
  still make: \<open>None\<close> says that the iterator has not reached \<^verbatim>\<open>end()\<close> within
  that many.
\<close>

fun iterate :: "nat \<Rightarrow> slice_iterator \<Rightarrow> slice_iterator \<Rightarrow> TileSliceIndex list option" where
  "iterate 0 it e = None"
| "iterate (Suc fuel) it e =
     (if it_ne it e then map_option ((#) (it_value it)) (iterate fuel (it_next it) e)
      else Some [])"

definition slices :: "nat \<Rightarrow> u32 \<Rightarrow> u32 \<Rightarrow> ImageSize \<Rightarrow> error + TileSliceIndex list option" where
  "slices fuel tw off bs =
     (case end_it (sliced tw off bs) of
        Inl e \<Rightarrow> Inl e
      | Inr e \<Rightarrow> Inr (iterate fuel (begin_it (sliced tw off bs)) e))"

section \<open>Atlas data (TextureAtlas.h)\<close>

text \<open>\<^verbatim>\<open>enum class Format { Red = 1, RGB = 3, RGBA = 4 };\<close>\<close>

datatype Format = Red | RGB | RGBA

definition element_count :: "Format \<Rightarrow> u32" where
  "element_count f = (case f of Red \<Rightarrow> 1 | RGB \<Rightarrow> 3 | RGBA \<Rightarrow> 4)"

text \<open>
  \<^verbatim>\<open>struct TileLocation { X x {}; Y y {}; }\<close> with \<^verbatim>\<open>struct X { uint16_t value; }\<close>
  and \<^verbatim>\<open>struct Y { uint16_t value; }\<close>: two 16-bit pixel offsets.
\<close>

record TileLocation =
  x_value :: u16
  y_value :: u16

record AtlasProperties =
  format :: Format
  tileSize :: ImageSize
  tileCount :: u32
  directMappingCount :: u32

type_synonym Buffer = "u8 list"

text \<open>
  The backend is an interface the atlas only sends commands to. The model keeps the
  commands it has received, oldest first. \<^verbatim>\<open>ConfigureAtlas { size, properties }\<close> and
  \<^verbatim>\<open>UploadTile { location, bitmap, bitmapSize, bitmapFormat }\<close> are the two commands
  the atlas issues (\<^verbatim>\<open>RenderTile\<close> is issued by the renderers, not by the atlas).
\<close>

datatype command =
    ConfigureAtlas ImageSize AtlasProperties
  | UploadTile TileLocation Buffer ImageSize Format

type_synonym AtlasBackend = "command list"

text \<open>
  \<^verbatim>\<open>TextureAtlas::TileCreateData { bitmap, bitmapFormat, bitmapSize, metadata }\<close> is what a
  build function returns; \<^verbatim>\<open>TileAttributes { location, bitmapSize, metadata }\<close> is what
  the atlas stores.
\<close>

record 'm TileCreateData =
  bitmap :: Buffer
  bitmapFormat :: Format
  data_bitmapSize :: ImageSize
  data_metadata :: 'm

record 'm TileAttributes =
  location :: TileLocation
  attr_bitmapSize :: ImageSize
  attr_metadata :: 'm

section \<open>The LRU hash table the atlas delegates to\<close>

text \<open>
  Modelled from the spec: \<^verbatim>\<open>crispy/StrongLRUHashtable.h\<close> and \<^verbatim>\<open>crispy/StrongHash.h\<close>
  are included by \<^verbatim>\<open>TextureAtlas.h\<close> but are not among the sources. The specification
  describes the table as a fixed-capacity mapping from a 128-bit \<^verbatim>\<open>StrongHash\<close> to a
  value, with entries \<open>{hash, entryIndex, attrs, ...}\<close> in a total LRU order and
  \<open>entryIndex\<close> values handed out from a free list. The model keeps the live entries
  as a list, most recently used first, and the free list of unused entry indices.
\<close>

type_synonym StrongHash = "128 word"

record 'v lru_entry =
  entry_hash :: StrongHash
  entryIndex :: u32
  entry_attrs :: 'v

record 'v StrongLRUHashtable =
  hashCount :: u32
  lru_capacity :: u32
  lru_entries :: "'v lru_entry list"
  lru_free :: "u32 list"

text \<open>
  Modelled from the spec: \<^verbatim>\<open>create(StrongHashtableSize, LRUCapacity, name)\<close>, with
  construction parameters \<open>bucketCount\<close> and \<open>capacity\<close> (maximum of live entries);
  the name is for diagnostics only and left out. A new table has no entry, and every index
  below the capacity is free.
\<close>

definition create :: "u32 \<Rightarrow> u32 \<Rightarrow> 'v StrongLRUHashtable" where
  "create buckets cap =
     \<lparr>hashCount = buckets, lru_capacity = cap, lru_entries = [],
      lru_free = map of_nat [0..<unat cap]\<rparr>"

text \<open>Modelled from the spec: the number of live entries.\<close>

definition lru_size :: "'v StrongLRUHashtable \<Rightarrow> nat" where
  "lru_size t = length (lru_entries t)"

definition lru_find :: "'v StrongLRUHashtable \<Rightarrow> StrongHash \<Rightarrow> 'v lru_entry option" where
  "lru_find t h = find (\<lambda>e. entry_hash e = h) (lru_entries t)"

text \<open>
  Modelled from the spec: \<open>contains(hash) \<rightarrow> bool\<close>, lookup without touching LRU
  order.
\<close>

definition lru_contains :: "'v StrongLRUHashtable \<Rightarrow> StrongHash \<Rightarrow> bool" where
  "lru_contains t h = (lru_find t h \<noteq> None)"

text \<open>Modelled from the spec: a hit promotes the entry to the MRU end.\<close>

definition lru_touch :: "'v StrongLRUHashtable \<Rightarrow> 'v lru_entry \<Rightarrow> 'v StrongLRUHashtable" where
  "lru_touch t e = t\<lparr>lru_entries := e # remove1 e (lru_entries t)\<rparr>"

text \<open>
  Modelled from the spec: \<open>try_get(hash) \<rightarrow> &attrs | null\<close>, lookup; on hit, promotes
  entry to MRU.
\<close>

definition lru_try_get ::
  "'v StrongLRUHashtable \<Rightarrow> StrongHash \<Rightarrow> 'v option \<times> 'v StrongLRUHashtable" where
  "lru_try_get t h =
     (case lru_find t h of
        None \<Rightarrow> (None, t)
      | Some e \<Rightarrow> (Some (entry_attrs e), lru_touch t e))"

text \<open>
  Modelled from the spec: on a miss, if at capacity evict the LRU tail and reuse its
  \<open>entryIndex\<close>; else take an unused \<open>entryIndex\<close>. The result is the index and the
  table without the evicted entry, respectively without the index in its free list. A
  table with neither an entry to evict nor a free index has nothing to hand out.
\<close>

definition lru_allocate :: "'v StrongLRUHashtable \<Rightarrow> error + (u32 \<times> 'v StrongLRUHashtable)" where
  "lru_allocate t =
     (if unat (lru_capacity t) \<le> length (lru_entries t) then
        (case rev (lru_entries t) of
           [] \<Rightarrow> Inl CacheExhausted
         | e # _ \<Rightarrow> Inr (entryIndex e, t\<lparr>lru_entries := butlast (lru_entries t)\<rparr>))
      else
        (case lru_free t of
           [] \<Rightarrow> Inl CacheExhausted
         | i # free \<Rightarrow> Inr (i, t\<lparr>lru_free := free\<rparr>)))"

definition lru_insert ::
  "'v StrongLRUHashtable \<Rightarrow> StrongHash \<Rightarrow> u32 \<Rightarrow> 'v \<Rightarrow> 'v StrongLRUHashtable" where
  "lru_insert t h i v =
     t\<lparr>lru_entries := \<lparr>entry_hash = h, entryIndex = i, entry_attrs = v\<rparr> # lru_entries t\<rparr>"

text \<open>
  Modelled from the spec: \<open>get_or_emplace(hash, build_fn(entryIndex) \<rightarrow> attrs) \<rightarrow> &attrs\<close>:
  on hit promote and return; on miss, evict or take an unused index, invoke
  \<open>build_fn(entryIndex)\<close>, insert at MRU, return. The build function of the atlas has
  an effect on the backend, so it takes and returns a state \<open>'b\<close>, and it ends with an
  error where the atlas does.
\<close>

definition lru_get_or_emplace ::
  "'v StrongLRUHashtable \<Rightarrow> StrongHash \<Rightarrow> (u32 \<Rightarrow> 'b \<Rightarrow> error + ('v \<times> 'b)) \<Rightarrow> 'b \<Rightarrow>
     error + ('v \<times> 'v StrongLRUHashtable \<times> 'b)" where
  "lru_get_or_emplace t h build b =
     (case lru_find t h of
        Some e \<Rightarrow> Inr (entry_attrs e, lru_touch t e, b)
      | None \<Rightarrow>
          (case lru_allocate t of
             Inl err \<Rightarrow> Inl err
           | Inr (i, t') \<Rightarrow>
               (case build i b of
                  Inl err \<Rightarrow> Inl err
                | Inr (v, b') \<Rightarrow> Inr (v, lru_insert t' h i v, b'))))"

text \<open>
  Modelled from the spec: \<open>get_or_try_emplace(hash, build_fn \<rightarrow> Option<attrs>) \<rightarrow> &attrs | null\<close>:
  identical, except \<open>build_fn\<close> may decline (returns none); on decline, no entry is
  created, no slot is consumed, and live count and LRU order are left unchanged.
\<close>

definition lru_get_or_try_emplace ::
  "'v StrongLRUHashtable \<Rightarrow> StrongHash \<Rightarrow> (u32 \<Rightarrow> 'b \<Rightarrow> error + ('v option \<times> 'b)) \<Rightarrow> 'b \<Rightarrow>
     error + ('v option \<times> 'v StrongLRUHashtable \<times> 'b)" where
  "lru_get_or_try_emplace t h build b =
     (case lru_find t h of
        Some e \<Rightarrow> Inr (Some (entry_attrs e), lru_touch t e, b)
      | None \<Rightarrow>
          (case lru_allocate t of
             Inl err \<Rightarrow> Inl err
           | Inr (i, t') \<Rightarrow>
               (case build i b of
                  Inl err \<Rightarrow> Inl err
                | Inr (None, b') \<Rightarrow> Inr (None, t, b')
                | Inr (Some v, b') \<Rightarrow> Inr (Some v, lru_insert t' h i v, b'))))"

text \<open>
  Modelled from the spec: \<open>remove(hash)\<close>: drop the entry; free the \<open>entryIndex\<close>.
\<close>

definition lru_remove :: "'v StrongLRUHashtable \<Rightarrow> StrongHash \<Rightarrow> 'v StrongLRUHashtable" where
  "lru_remove t h =
     (case lru_find t h of
        None \<Rightarrow> t
      | Some e \<Rightarrow> t\<lparr>lru_entries := remove1 e (lru_entries t), lru_free := entryIndex e # lru_free t\<rparr>)"

text \<open>
  Modelled from the spec: \<open>emplace(hash, build_fn)\<close>: force insertion, evicting the
  existing hash's entry if present, else evicting LRU tail if full.
\<close>

definition lru_emplace ::
  "'v StrongLRUHashtable \<Rightarrow> StrongHash \<Rightarrow> (u32 \<Rightarrow> 'b \<Rightarrow> error + ('v \<times> 'b)) \<Rightarrow> 'b \<Rightarrow>
     error + ('v StrongLRUHashtable \<times> 'b)" where
  "lru_emplace t h build b =
     (case lru_allocate (lru_remove t h) of
        Inl err \<Rightarrow> Inl err
      | Inr (i, t') \<Rightarrow>
          (case build i b of
             Inl err \<Rightarrow> Inl err
           | Inr (v, b') \<Rightarrow> Inr (lru_insert t' h i v, b')))"

text \<open>Modelled from the spec: \<open>clear()\<close>: drop all entries; free all indices.\<close>

definition lru_clear :: "'v StrongLRUHashtable \<Rightarrow> 'v StrongLRUHashtable" where
  "lru_clear t = t\<lparr>lru_entries := [], lru_free := map of_nat [0..<unat (lru_capacity t)]\<rparr>"

section \<open>Atlas geometry (TextureAtlas.h)\<close>

text \<open>
  Modelled from the spec: \<^verbatim>\<open>crispy::detail::nextPowerOfTwo\<close> is not among the sources.
  The specification calls it \<open>nextPow2\<close> and gives \<open>nextPow2(64) = 64\<close>,
  \<open>nextPow2(80) = 128\<close> and \<open>nextPow2(160) = 256\<close>: the least power of two that is
  not below the argument, here computed by doubling from 1 and stored in the 32 bits of
  the result type.
\<close>

function nextPow2_from :: "nat \<Rightarrow> nat \<Rightarrow> nat" where
  "nextPow2_from p v = (if p = 0 \<or> v \<le> p then p else nextPow2_from (2 * p) v)"
  by pat_completeness auto
termination
  by (relation "measure (\<lambda>(p, v). v - p)") auto

declare nextPow2_from.simps [simp del]

definition nextPowerOfTwo :: "u32 \<Rightarrow> u32" where
  "nextPowerOfTwo v = of_nat (nextPow2_from 1 (unat v))"

text \<open>
  \<^verbatim>\<open>ceil(sqrt(totalTileCount))\<close> is computed on \<^verbatim>\<open>double\<close>. The argument is an
  integer below \<open>2 ^ 32\<close>; the correctly rounded square root of such a number is an
  integer exactly when the number is a square and lies strictly between two integers
  otherwise, so that its ceiling is the least \<open>k\<close> with \<open>n \<le> k * k\<close>, which the model
  finds by counting up.
\<close>

function ceilSqrt_from :: "nat \<Rightarrow> nat \<Rightarrow> nat" where
  "ceilSqrt_from k n = (if n \<le> k * k then k else ceilSqrt_from (Suc k) n)"
  by pat_completeness auto
termination
proof (relation "measure (\<lambda>(k, n). n - k)")
  show "wf (measure (\<lambda>(k, n). n - k))" by simp
next
  fix k n :: nat
  assume "\<not> n \<le> k * k"
  then have "k * k < n" by simp
  moreover have "k \<le> k * k" by (cases k) simp_all
  ultimately have "k < n" by (rule le_less_trans [rotated])
  then show "((Suc k, n), (k, n)) \<in> measure (\<lambda>(k, n). n - k)" by simp
qed

declare ceilSqrt_from.simps [simp del]

definition ceilSqrt :: "nat \<Rightarrow> nat" where
  "ceilSqrt n = ceilSqrt_from 0 n"

text \<open>
  \<^verbatim>\<open>
  inline ImageSize computeAtlasSize(AtlasProperties const& atlasProperties) noexcept
  {
      auto const totalTileCount = crispy::detail::nextPowerOfTwo(atlasProperties.tileCount + atlasProperties.directMappingCount);
      auto const squareEdgeCount = ceil(sqrt(totalTileCount));
      auto const width = Width::cast_from(crispy::detail::nextPowerOfTwo(static_cast<uint32_t>(ceil(
          TileWidthMultiplier * squareEdgeCount * unbox<double>(atlasProperties.tileSize.width)))));
      auto const height = Height::cast_from(crispy::detail::nextPowerOfTwo(static_cast<uint32_t>(ceil(
          TileHeightMultiplier * squareEdgeCount * unbox<double>(atlasProperties.tileSize.height)))));
      return ImageSize { width, height };
  }
  \<close>
  \<^verbatim>\<open>TileWidthMultiplier\<close> and \<^verbatim>\<open>TileHeightMultiplier\<close> are 1.0. The products are
  products of integers below \<open>2 ^ 17\<close> and \<open>2 ^ 32\<close>, which \<^verbatim>\<open>double\<close> represents
  exactly, so the model computes them on natural numbers. The conversion of a
  \<^verbatim>\<open>double\<close> of \<open>2 ^ 32\<close> or more to \<^verbatim>\<open>uint32_t\<close> is undefined.
\<close>

definition computeAtlasSize :: "AtlasProperties \<Rightarrow> error + ImageSize" where
  "computeAtlasSize p =
     (let totalTileCount = nextPowerOfTwo (tileCount p + directMappingCount p);
          squareEdgeCount = ceilSqrt (unat totalTileCount);
          w = squareEdgeCount * unat (width (tileSize p));
          h = squareEdgeCount * unat (height (tileSize p))
      in if w < 2 ^ 32 \<and> h < 2 ^ 32
         then Inr \<lparr>width = nextPowerOfTwo (of_nat w), height = nextPowerOfTwo (of_nat h)\<rparr>
         else Inl ConversionOutOfRange)"

text \<open>
  The body of the constructor's loop over \<open>entryIndex\<close>:
  \<^verbatim>\<open>
  auto const xBase = static_cast<uint16_t>(
      (entryIndex % _tilesInX) * _atlasProperties.tileSize.width.value * TileWidthMultiplier);
  auto const yBase = static_cast<uint16_t>(floor(
      static_cast<double>(entryIndex / _tilesInX) * unbox<double>(_atlasProperties.tileSize.height)
      * TileHeightMultiplier));
  _tileLocations[entryIndex] = TileLocation({ xBase }, { yBase });
  \<close>
  Both products are computed exactly and then converted from \<^verbatim>\<open>double\<close> to
  \<^verbatim>\<open>uint16_t\<close>. The source does not check that a product is below \<open>2 ^ 16\<close>;
  the coordinate stored for a larger product is the product's low 16 bits, which is what
  \<open>of_nat\<close> into a 16-bit word gives.
\<close>

definition tileLocationFor :: "u32 \<Rightarrow> ImageSize \<Rightarrow> nat \<Rightarrow> TileLocation" where
  "tileLocationFor tx ts i =
     \<lparr>x_value = of_nat ((i mod unat tx) * unat (width ts)),
      y_value = of_nat ((i div unat tx) * unat (height ts))\<rparr>"

section \<open>The texture atlas (TextureAtlas.h)\<close>

text \<open>
  The members of \<^verbatim>\<open>class TextureAtlas\<close>. \<open>backend\<close> stands for the commands that
  the borrowed \<^verbatim>\<open>AtlasBackend&\<close> has received. \<^verbatim>\<open>_directTileMapping\<close> and
  \<^verbatim>\<open>_name\<close> are never used and left out.
\<close>

record 'm TextureAtlas =
  backend :: AtlasBackend
  atlasProperties :: AtlasProperties
  atlasSize :: ImageSize
  tilesInX :: u32
  tilesInY :: u32
  tileCache :: "'m TileAttributes StrongLRUHashtable"
  tileLocations :: "TileLocation list"
  directMapping :: "'m TileAttributes list"

text \<open>
  Modelled from the spec: the \<^verbatim>\<open>Require\<close> macro of \<^verbatim>\<open>crispy/assert.h\<close> is not among
  the sources; the specification has a failed requirement surface as a precondition
  violation.
\<close>

definition Require :: "bool \<Rightarrow> error + unit" where
  "Require c = (if c then Inr () else Inl RequireFailed)"

text \<open>
  The constructor \<^verbatim>\<open>TextureAtlas(AtlasBackend& backend, AtlasProperties atlasProperties)\<close>:
  \<^verbatim>\<open>
  _atlasSize { computeAtlasSize(_atlasProperties) },
  _tilesInX { static_cast<uint32_t>(floor(unbox<double>(_atlasSize.width)
                / (unbox<double>(_atlasProperties.tileSize.width) * TileWidthMultiplier))) },
  _tilesInY { static_cast<uint32_t>(floor(
      unbox<uint32_t>(_atlasSize.height / _atlasProperties.tileSize.height) * TileHeightMultiplier)) },
  _tileCache { TileCache::create(crispy::StrongHashtableSize { _tilesInX * _tilesInY },
                                 crispy::LRUCapacity { _tilesInX * _tilesInY },
                                 "LRU cache for texture atlas") },
  _tileLocations { static_cast<size_t>(_tilesInX * _tilesInY) }
  {
      Require(_tileLocations.size() >= _atlasProperties.directMappingCount + _atlasProperties.tileCount);
      auto data = ConfigureAtlas {}; data.size = _atlasSize; data.properties = _atlasProperties;
      _backend.configureAtlas(data);
      for (size_t entryIndex = 0; entryIndex < _tileLocations.size(); ++entryIndex) { ... }
      _directMapping.resize(_atlasProperties.directMappingCount);
  }
  \<close>
  The quotient of two integers below \<open>2 ^ 32\<close> computed on \<^verbatim>\<open>double\<close> and rounded
  down is their integer quotient; with a tile width of 0 the \<^verbatim>\<open>double\<close> quotient is
  infinite or not a number, whose conversion to \<^verbatim>\<open>uint32_t\<close> is undefined, and with a
  tile height of 0 the integer division is. \<open>m0\<close> is the value-initialised
  \<^verbatim>\<open>Metadata {}\<close> that \<^verbatim>\<open>resize\<close> fills the direct mapping with.
\<close>

definition newTextureAtlas ::
  "AtlasBackend \<Rightarrow> AtlasProperties \<Rightarrow> 'm \<Rightarrow> error + 'm TextureAtlas" where
  "newTextureAtlas be p m0 =
     (case computeAtlasSize p of
        Inl err \<Rightarrow> Inl err
      | Inr sz \<Rightarrow>
          if width (tileSize p) = 0 then Inl ConversionOutOfRange
          else if height (tileSize p) = 0 then Inl DivisionByZero
          else
            (let tx = width sz div width (tileSize p);
                 ty = height sz div height (tileSize p);
                 n = tx * ty
             in case Require (unat (directMappingCount p + tileCount p) \<le> unat n) of
                  Inl err \<Rightarrow> Inl err
                | Inr _ \<Rightarrow>
                    Inr \<lparr>backend = be @ [ConfigureAtlas sz p],
                         atlasProperties = p,
                         atlasSize = sz,
                         tilesInX = tx,
                         tilesInY = ty,
                         tileCache = create n n,
                         tileLocations = map (tileLocationFor tx (tileSize p)) [0..<unat n],
                         directMapping =
                           replicate (unat (directMappingCount p))
                             \<lparr>location = \<lparr>x_value = 0, y_value = 0\<rparr>,
                              attr_bitmapSize = \<lparr>width = 0, height = 0\<rparr>,
                              attr_metadata = m0\<rparr>\<rparr>))"

text \<open>
  \<^verbatim>\<open>size_t capacity() const noexcept { return _tileLocations.size(); }\<close>,
  \<^verbatim>\<open>ImageSize tileSize() const noexcept { return _atlasProperties.tileSize; }\<close> and
  \<^verbatim>\<open>contains(id)\<close>, which is \<^verbatim>\<open>_tileCache->contains(_id)\<close>.
\<close>

definition capacity :: "'m TextureAtlas \<Rightarrow> nat" where
  "capacity a = length (tileLocations a)"

definition atlas_tileSize :: "'m TextureAtlas \<Rightarrow> ImageSize" where
  "atlas_tileSize a = tileSize (atlasProperties a)"

definition contains :: "'m TextureAtlas \<Rightarrow> StrongHash \<Rightarrow> bool" where
  "contains a h = lru_contains (tileCache a) h"

text \<open>
  \<^verbatim>\<open>TileLocation tileLocation(uint32_t index) const { return _tileLocations[index]; }\<close>:
  the vector's \<^verbatim>\<open>operator[]\<close> is not checked.
\<close>

definition tileLocation :: "'m TextureAtlas \<Rightarrow> u32 \<Rightarrow> error + TileLocation" where
  "tileLocation a index =
     (if unat index < length (tileLocations a) then Inr (tileLocations a ! unat index)
      else Inl OutOfBounds)"

text \<open>
  \<^verbatim>\<open>
  auto TextureAtlas<Metadata>::constructTile(CreateTileDataFn createTileData, uint32_t entryIndex)
      -> std::optional<TileAttributes<Metadata>>
  {
      auto const tileIndex = entryIndex + _atlasProperties.directMappingCount;
      auto const tileLocation = _tileLocations[tileIndex];
      std::optional<TileCreateData> tileCreateDataOpt = createTileData(tileLocation, entryIndex);
      if (!tileCreateDataOpt)
          return std::nullopt;
      TileCreateData& tileCreateData = *tileCreateDataOpt;
      auto tileUpload = UploadTile {}; ...
      _backend.uploadTile(std::move(tileUpload));
      auto instance = TileAttributes<Metadata> {}; ...
      return instance;
  }
  \<close>
  The function runs inside a call to the table, so the model passes it the backend apart
  from the other members of the atlas, which it only reads.
\<close>

definition constructTile ::
  "'m TextureAtlas \<Rightarrow> (TileLocation \<Rightarrow> u32 \<Rightarrow> 'm TileCreateData option) \<Rightarrow> u32 \<Rightarrow> AtlasBackend \<Rightarrow>
     error + ('m TileAttributes option \<times> AtlasBackend)" where
  "constructTile a createTileData entryIdx be =
     (let tileIndex = entryIdx + directMappingCount (atlasProperties a)
      in if unat tileIndex < length (tileLocations a) then
           (let loc = tileLocations a ! unat tileIndex
            in case createTileData loc entryIdx of
                 None \<Rightarrow> Inr (None, be)
               | Some d \<Rightarrow>
                   Inr (Some \<lparr>location = loc, attr_bitmapSize = data_bitmapSize d,
                               attr_metadata = data_metadata d\<rparr>,
                        be @ [UploadTile loc (bitmap d) (data_bitmapSize d) (bitmapFormat d)]))
         else Inl OutOfBounds)"

text \<open>
  A build function that the table's \<^verbatim>\<open>get_or_emplace\<close> and \<^verbatim>\<open>emplace\<close> can store
  the result of: \<^verbatim>\<open>emplace\<close> takes \<^verbatim>\<open>.value()\<close> of the optional that
  \<^verbatim>\<open>constructTile\<close> returns, and \<^verbatim>\<open>get_or_emplace\<close> hands the optional to the
  table, which the specification gives a build function that returns the attributes; an
  empty optional has no value to store.
\<close>

definition constructTileValue ::
  "'m TextureAtlas \<Rightarrow> (TileLocation \<Rightarrow> u32 \<Rightarrow> 'm TileCreateData option) \<Rightarrow> u32 \<Rightarrow> AtlasBackend \<Rightarrow>
     error + ('m TileAttributes \<times> AtlasBackend)" where
  "constructTileValue a createTileData entryIdx be =
     (case constructTile a createTileData entryIdx be of
        Inl err \<Rightarrow> Inl err
      | Inr (None, be') \<Rightarrow> Inl BadOptionalAccess
      | Inr (Some v, be') \<Rightarrow> Inr (v, be'))"

text \<open>
  \<^verbatim>\<open>get_or_emplace\<close>, \<^verbatim>\<open>try_get\<close>, \<^verbatim>\<open>get_or_try_emplace\<close>, \<^verbatim>\<open>emplace\<close> and
  \<^verbatim>\<open>remove\<close> delegate to the table; the three that build pass it a lambda that calls
  \<^verbatim>\<open>constructTile\<close>. \<^verbatim>\<open>emplace\<close> wraps a build function of the location alone:
  \<^verbatim>\<open>[&](TileLocation location, uint32_t) -> std::optional<TileCreateData> { return { createTileData(location) }; }\<close>.
\<close>

definition get_or_emplace ::
  "'m TextureAtlas \<Rightarrow> StrongHash \<Rightarrow> (TileLocation \<Rightarrow> u32 \<Rightarrow> 'm TileCreateData option) \<Rightarrow>
     error + ('m TileAttributes \<times> 'm TextureAtlas)" where
  "get_or_emplace a key createTileData =
     (case lru_get_or_emplace (tileCache a) key (constructTileValue a createTileData) (backend a) of
        Inl err \<Rightarrow> Inl err
      | Inr (v, t, be) \<Rightarrow> Inr (v, a\<lparr>backend := be, tileCache := t\<rparr>))"

definition try_get ::
  "'m TextureAtlas \<Rightarrow> StrongHash \<Rightarrow> 'm TileAttributes option \<times> 'm TextureAtlas" where
  "try_get a key =
     (case lru_try_get (tileCache a) key of (r, t) \<Rightarrow> (r, a\<lparr>tileCache := t\<rparr>))"

definition get_or_try_emplace ::
  "'m TextureAtlas \<Rightarrow> StrongHash \<Rightarrow> (TileLocation \<Rightarrow> u32 \<Rightarrow> 'm TileCreateData option) \<Rightarrow>
     error + ('m TileAttributes option \<times> 'm TextureAtlas)" where
  "get_or_try_emplace a key createTileData =
     (case lru_get_or_try_emplace (tileCache a) key (constructTile a createTileData) (backend a) of
        Inl err \<Rightarrow> Inl err
      | Inr (r, t, be) \<Rightarrow> Inr (r, a\<lparr>backend := be, tileCache := t\<rparr>))"

definition emplace ::
  "'m TextureAtlas \<Rightarrow> StrongHash \<Rightarrow> (TileLocation \<Rightarrow> 'm TileCreateData) \<Rightarrow> error + 'm TextureAtlas" where
  "emplace a key createTileData =
     (case lru_emplace (tileCache a) key
             (constructTileValue a (\<lambda>loc _. Some (createTileData loc))) (backend a) of
        Inl err \<Rightarrow> Inl err
      | Inr (t, be) \<Rightarrow> Inr (a\<lparr>backend := be, tileCache := t\<rparr>))"

definition remove :: "'m TextureAtlas \<Rightarrow> StrongHash \<Rightarrow> 'm TextureAtlas" where
  "remove a key = a\<lparr>tileCache := lru_remove (tileCache a) key\<rparr>"

text \<open>
  \<^verbatim>\<open>
  void TextureAtlas<Metadata>::reset(AtlasProperties atlasProperties)
  {
      _atlasProperties = atlasProperties;
      _tileCache->clear();
  }
  \<close>
\<close>

definition reset :: "'m TextureAtlas \<Rightarrow> AtlasProperties \<Rightarrow> 'm TextureAtlas" where
  "reset a p = a\<lparr>atlasProperties := p, tileCache := lru_clear (tileCache a)\<rparr>"

text \<open>
  \<^verbatim>\<open>
  TileAttributes<Metadata> const& TextureAtlas<Metadata>::directMapped(uint32_t index) const
  {
      Require(index < _directMapping.size());
      return _directMapping[index];
  }
  \<close>
\<close>

definition directMapped :: "'m TextureAtlas \<Rightarrow> u32 \<Rightarrow> error + 'm TileAttributes" where
  "directMapped a index =
     (case Require (unat index < length (directMapping a)) of
        Inl err \<Rightarrow> Inl err
      | Inr _ \<Rightarrow> Inr (directMapping a ! unat index))"

text \<open>
  \<^verbatim>\<open>
  void TextureAtlas<Metadata>::setDirectMapping(uint32_t index, TileCreateData tileCreateData)
  {
      Require(index < _directMapping.size());
      auto const tileLocation = _tileLocations[index];
      auto tileUpload = UploadTile {}; ...
      _backend.uploadTile(std::move(tileUpload));
      auto instance = TileAttributes<Metadata> {}; ...
      _directMapping[index] = std::move(instance);
  }
  \<close>
\<close>

definition setDirectMapping ::
  "'m TextureAtlas \<Rightarrow> u32 \<Rightarrow> 'm TileCreateData \<Rightarrow> error + 'm TextureAtlas" where
  "setDirectMapping a index d =
     (case Require (unat index < length (directMapping a)) of
        Inl err \<Rightarrow> Inl err
      | Inr _ \<Rightarrow>
          if unat index < length (tileLocations a) then
            (let loc = tileLocations a ! unat index
             in Inr (a\<lparr>backend := backend a @ [UploadTile loc (bitmap d) (data_bitmapSize d) (bitmapFormat d)],
                      directMapping := (directMapping a)
                        [unat index := \<lparr>location = loc, attr_bitmapSize = data_bitmapSize d,
                                         attr_metadata = data_metadata d\<rparr>]\<rparr>))
          else Inl OutOfBounds)"

text \<open>
  The operations that change an atlas after its construction, and a sequence of them run
  in order on one atlas up to the first that fails.
\<close>

datatype 'm atlas_op =
    GetOrEmplace StrongHash "TileLocation \<Rightarrow> u32 \<Rightarrow> 'm TileCreateData option"
  | TryGet StrongHash
  | GetOrTryEmplace StrongHash "TileLocation \<Rightarrow> u32 \<Rightarrow> 'm TileCreateData option"
  | Emplace StrongHash "TileLocation \<Rightarrow> 'm TileCreateData"
  | Remove StrongHash
  | Reset AtlasProperties
  | SetDirectMapping u32 "'m TileCreateData"

fun apply_op :: "'m TextureAtlas \<Rightarrow> 'm atlas_op \<Rightarrow> error + 'm TextureAtlas" where
  "apply_op a (GetOrEmplace key f) = map_sum id snd (get_or_emplace a key f)"
| "apply_op a (TryGet key) = Inr (snd (try_get a key))"
| "apply_op a (GetOrTryEmplace key f) = map_sum id snd (get_or_try_emplace a key f)"
| "apply_op a (Emplace key f) = emplace a key f"
| "apply_op a (Remove key) = Inr (remove a key)"
| "apply_op a (Reset p) = Inr (reset a p)"
| "apply_op a (SetDirectMapping index d) = setDirectMapping a index d"

fun apply_ops :: "'m TextureAtlas \<Rightarrow> 'm atlas_op list \<Rightarrow> error + 'm TextureAtlas" where
  "apply_ops a [] = Inr a"
| "apply_ops a (x # xs) =
     (case apply_op a x of Inl err \<Rightarrow> Inl err | Inr a' \<Rightarrow> apply_ops a' xs)"

text \<open>
  The atlases of the specification's scenarios 1 and 6: tiles of 8 by 16 pixels, 4 tiles
  and no direct mapping; tiles of 10 by 20 pixels, 60 tiles and 4 direct-mapped slots.
\<close>

definition props1 :: AtlasProperties where
  "props1 = \<lparr>format = RGBA, tileSize = \<lparr>width = 8, height = 16\<rparr>, tileCount = 4,
             directMappingCount = 0\<rparr>"

definition props6 :: AtlasProperties where
  "props6 = \<lparr>format = RGBA, tileSize = \<lparr>width = 10, height = 20\<rparr>, tileCount = 60,
             directMappingCount = 4\<rparr>"

definition atlas1 :: "unit TextureAtlas" where
  "atlas1 =
     \<lparr>backend = [ConfigureAtlas \<lparr>width = 16, height = 32\<rparr> props1],
      atlasProperties = props1,
      atlasSize = \<lparr>width = 16, height = 32\<rparr>,
      tilesInX = 2,
      tilesInY = 2,
      tileCache = create 4 4,
      tileLocations =
        [\<lparr>x_value = 0, y_value = 0\<rparr>, \<lparr>x_value = 8, y_value = 0\<rparr>,
         \<lparr>x_value = 0, y_value = 16\<rparr>, \<lparr>x_value = 8, y_value = 16\<rparr>],
      directMapping = []\<rparr>"

definition atlas6 :: "unit TextureAtlas" where
  "atlas6 =
     \<lparr>backend = [ConfigureAtlas \<lparr>width = 128, height = 256\<rparr> props6],
      atlasProperties = props6,
      atlasSize = \<lparr>width = 128, height = 256\<rparr>,
      tilesInX = 12,
      tilesInY = 12,
      tileCache = create 144 144,
      tileLocations = map (tileLocationFor 12 \<lparr>width = 10, height = 20\<rparr>) [0..<144],
      directMapping =
        replicate 4 \<lparr>location = \<lparr>x_value = 0, y_value = 0\<rparr>,
                     attr_bitmapSize = \<lparr>width = 0, height = 0\<rparr>, attr_metadata = ()\<rparr>\<rparr>"

text \<open>
  The atlas of the specification's scenario 3, with tiles of 8 by 16 pixels: 2 tiles and 2
  direct-mapped slots; and that atlas after \<^verbatim>\<open>get_or_try_emplace\<close> has built a tile
  for the keys 1 and 2, which the table gave the entry indices 0 and 1, that is the tile
  indices 2 and 3.
\<close>

definition props3 :: AtlasProperties where
  "props3 = \<lparr>format = RGBA, tileSize = \<lparr>width = 8, height = 16\<rparr>, tileCount = 2,
             directMappingCount = 2\<rparr>"

definition atlas3 :: "unit TextureAtlas" where
  "atlas3 =
     \<lparr>backend = [ConfigureAtlas \<lparr>width = 16, height = 32\<rparr> props3],
      atlasProperties = props3,
      atlasSize = \<lparr>width = 16, height = 32\<rparr>,
      tilesInX = 2,
      tilesInY = 2,
      tileCache = create 4 4,
      tileLocations =
        [\<lparr>x_value = 0, y_value = 0\<rparr>, \<lparr>x_value = 8, y_value = 0\<rparr>,
         \<lparr>x_value = 0, y_value = 16\<rparr>, \<lparr>x_value = 8, y_value = 16\<rparr>],
      directMapping =
        replicate 2 \<lparr>location = \<lparr>x_value = 0, y_value = 0\<rparr>,
                     attr_bitmapSize = \<lparr>width = 0, height = 0\<rparr>, attr_metadata = ()\<rparr>\<rparr>"

definition atlas3_two :: "unit TextureAtlas" where
  "atlas3_two =
     atlas3\<lparr>backend := backend atlas3 @
                [UploadTile \<lparr>x_value = 0, y_value = 16\<rparr> [0, 0] \<lparr>width = 2, height = 1\<rparr> Red,
                 UploadTile \<lparr>x_value = 8, y_value = 16\<rparr> [0, 0] \<lparr>width = 2, height = 1\<rparr> Red],
            tileCache :=
              \<lparr>hashCount = 4, lru_capacity = 4,
               lru_entries =
                 [\<lparr>entry_hash = 2, entryIndex = 1,
                   entry_attrs = \<lparr>location = \<lparr>x_value = 8, y_value = 16\<rparr>,
                                  attr_bitmapSize = \<lparr>width = 2, height = 1\<rparr>,
                                  attr_metadata = ()\<rparr>\<rparr>,
                  \<lparr>entry_hash = 1, entryIndex = 0,
                   entry_attrs = \<lparr>location = \<lparr>x_value = 0, y_value = 16\<rparr>,
                                  attr_bitmapSize = \<lparr>width = 2, height = 1\<rparr>,
                                  attr_metadata = ()\<rparr>\<rparr>],
               lru_free = [2, 3]\<rparr>\<rparr>"



text \<open>
  What the constructor derives from the properties and no later operation is meant to
  change: the atlas size, the grid, the tile locations and the number of direct-mapped
  slots.
\<close>

definition geometry :: "'m TextureAtlas \<Rightarrow> ImageSize \<times> u32 \<times> u32 \<times> TileLocation list \<times> nat" where
  "geometry a = (atlasSize a, tilesInX a, tilesInY a, tileLocations a, length (directMapping a))"

text \<open>
  Further concrete inputs: a tile of 2 by 1 pixels, properties whose tiles are 16 by 32
  pixels, and the atlas of scenario 1 after \<^verbatim>\<open>get_or_try_emplace\<close> has built that tile
  for the key 7.
\<close>

definition tile0 :: "unit TileCreateData" where
  "tile0 = \<lparr>bitmap = [0, 0], bitmapFormat = Red, data_bitmapSize = \<lparr>width = 2, height = 1\<rparr>,
            data_metadata = ()\<rparr>"

definition props2 :: AtlasProperties where
  "props2 = \<lparr>format = RGBA, tileSize = \<lparr>width = 16, height = 32\<rparr>, tileCount = 4,
             directMappingCount = 0\<rparr>"

definition atlas1_one :: "unit TextureAtlas" where
  "atlas1_one =
     atlas1\<lparr>backend := backend atlas1 @
                [UploadTile \<lparr>x_value = 0, y_value = 0\<rparr> [0, 0] \<lparr>width = 2, height = 1\<rparr> Red],
            tileCache :=
              \<lparr>hashCount = 4, lru_capacity = 4,
               lru_entries = [\<lparr>entry_hash = 7, entryIndex = 0,
                               entry_attrs = \<lparr>location = \<lparr>x_value = 0, y_value = 0\<rparr>,
                                              attr_bitmapSize = \<lparr>width = 2, height = 1\<rparr>,
                                              attr_metadata = ()\<rparr>\<rparr>],
               lru_free = [1, 2, 3]\<rparr>\<rparr>"

section \<open>Properties of the DirectMappingAllocator\<close>

lemma allocateAll_Cons:
  "allocateAll a (n # ns) =
     (fst (allocate a n) # fst (allocateAll (snd (allocate a n)) ns),
      snd (allocateAll (snd (allocate a n)) ns))"
  by (simp add: case_prod_beta)

lemma allocateAll_length: "length (fst (allocateAll a ns)) = length ns"
  by (induction ns arbitrary: a) (simp_all add: case_prod_beta)

lemma allocateAll_enabled_final:
  "enabled a \<Longrightarrow>
     snd (allocateAll a ns) = a\<lparr>currentlyAllocatedCount := currentlyAllocatedCount a + sum_list ns\<rparr>"
proof (induction ns arbitrary: a)
  case Nil
  then show ?case by simp
next
  case (Cons n ns)
  let ?a' = "a\<lparr>currentlyAllocatedCount := currentlyAllocatedCount a + n\<rparr>"
  have en: "enabled ?a'" using Cons.prems by simp
  have "snd (allocateAll a (n # ns)) = snd (allocateAll ?a' ns)"
    using Cons.prems by (simp add: allocateAll_Cons allocate_def del: allocateAll.simps)
  also have "\<dots> = ?a'\<lparr>currentlyAllocatedCount := currentlyAllocatedCount ?a' + sum_list ns\<rparr>"
    by (rule Cons.IH [OF en])
  finally show ?case by (simp add: add.assoc)
qed

lemma allocateAll_enabled_nth:
  "enabled a \<Longrightarrow> i < length ns \<Longrightarrow>
     fst (allocateAll a ns) ! i =
       \<lparr>baseIndex = currentlyAllocatedCount a + sum_list (take i ns), count = ns ! i\<rparr>"
proof (induction ns arbitrary: a i)
  case Nil
  then show ?case by simp
next
  case (Cons n ns)
  let ?a' = "a\<lparr>currentlyAllocatedCount := currentlyAllocatedCount a + n\<rparr>"
  have en: "enabled ?a'" using Cons.prems by simp
  have step: "fst (allocateAll a (n # ns)) =
      \<lparr>baseIndex = currentlyAllocatedCount a, count = n\<rparr> # fst (allocateAll ?a' ns)"
    using Cons.prems by (simp add: allocateAll_Cons allocate_def del: allocateAll.simps)
  show ?case
  proof (cases i)
    case 0
    then show ?thesis by (simp add: step del: allocateAll.simps)
  next
    case (Suc j)
    then have "j < length ns" using Cons.prems by simp
    from Cons.IH [OF en this] Suc show ?thesis
      by (simp add: step add.assoc del: allocateAll.simps)
  qed
qed

text \<open>
  Claim C10. For every sequence of \<^verbatim>\<open>allocate(count)\<close> calls on an enabled
  allocator, the i-th returned mapping has \<open>baseIndex\<close> equal to the allocator's
  starting count (0 for a fresh allocator) plus the sum of all counts requested before it
  and \<open>count\<close> equal to the requested count; every single call advances
  \<open>currentlyAllocatedCount\<close> by the requested count, and the whole sequence by the sum
  of the counts. With \<open>enabled == false\<close> the call returns the empty mapping (count 0,
  converting to false) and leaves the allocator unchanged. All sums are sums of
  \<^verbatim>\<open>uint32_t\<close> values, as the code computes them.
\<close>

theorem allocate_sequence:
  "(enabled a \<longrightarrow>
      length (fst (allocateAll a ns)) = length ns \<and>
      (\<forall>i < length ns.
          baseIndex (fst (allocateAll a ns) ! i) = currentlyAllocatedCount a + sum_list (take i ns) \<and>
          count (fst (allocateAll a ns) ! i) = ns ! i) \<and>
      currentlyAllocatedCount (snd (allocate a n)) = currentlyAllocatedCount a + n \<and>
      fst (allocate a n) = \<lparr>baseIndex = currentlyAllocatedCount a, count = n\<rparr> \<and>
      enabled (snd (allocate a n)) \<and>
      currentlyAllocatedCount (snd (allocateAll a ns)) = currentlyAllocatedCount a + sum_list ns) \<and>
   (\<not> enabled a \<longrightarrow>
      count (fst (allocate a n)) = 0 \<and> \<not> to_bool (fst (allocate a n)) \<and>
      fst (allocate a n) = emptyMapping \<and> snd (allocate a n) = a)"
proof (intro conjI impI allI)
  assume en: "enabled a"
  show "length (fst (allocateAll a ns)) = length ns" by (rule allocateAll_length)
  show "currentlyAllocatedCount (snd (allocate a n)) = currentlyAllocatedCount a + n"
    using en by (simp add: allocate_def)
  show "fst (allocate a n) = \<lparr>baseIndex = currentlyAllocatedCount a, count = n\<rparr>"
    using en by (simp add: allocate_def)
  show "enabled (snd (allocate a n))" using en by (simp add: allocate_def)
  show "currentlyAllocatedCount (snd (allocateAll a ns)) = currentlyAllocatedCount a + sum_list ns"
    using allocateAll_enabled_final [OF en, of ns] by simp
  fix i assume "i < length ns"
  from allocateAll_enabled_nth [OF en this]
  show "baseIndex (fst (allocateAll a ns) ! i) = currentlyAllocatedCount a + sum_list (take i ns)"
    and "count (fst (allocateAll a ns) ! i) = ns ! i"
    by simp_all
next
  assume dis: "\<not> enabled a"
  show "count (fst (allocate a n)) = 0" using dis by (simp add: allocate_def emptyMapping_def)
  show "\<not> to_bool (fst (allocate a n))"
    using dis by (simp add: allocate_def emptyMapping_def to_bool_def)
  show "fst (allocate a n) = emptyMapping" using dis by (simp add: allocate_def)
  show "snd (allocate a n) = a" using dis by (simp add: allocate_def)
qed

text \<open>
  Three allocations of 3, 5 and 2 slots on a fresh allocator start at 0, 3 and 8 and
  leave the count at 10; a disabled allocator hands out nothing.
\<close>

theorem allocate_sequence_witness:
  "fst (allocateAll newAllocator [3, 5, 2]) =
      [\<lparr>baseIndex = 0, count = 3\<rparr>, \<lparr>baseIndex = 3, count = 5\<rparr>, \<lparr>baseIndex = 8, count = 2\<rparr>] \<and>
   baseIndex (fst (allocateAll newAllocator [3, 5, 2]) ! 2) = 8 \<and>
   currentlyAllocatedCount (snd (allocateAll newAllocator [3, 5, 2])) = 10 \<and>
   allocate \<lparr>currentlyAllocatedCount = 7, enabled = False\<rparr> 4 =
      (emptyMapping, \<lparr>currentlyAllocatedCount = 7, enabled = False\<rparr>)"
proof -
  have en: "enabled newAllocator" by (simp add: newAllocator_def)
  have dis: "\<not> enabled \<lparr>currentlyAllocatedCount = 7, enabled = False\<rparr>" by simp
  have a: "baseIndex (fst (allocateAll newAllocator [3, 5, 2]) ! 2) = 8"
    and b: "currentlyAllocatedCount (snd (allocateAll newAllocator [3, 5, 2])) = 10"
    using allocate_sequence [of newAllocator "[3, 5, 2]" 0] en
    by (simp_all add: newAllocator_def)
  have c: "allocate \<lparr>currentlyAllocatedCount = 7, enabled = False\<rparr> 4 =
      (emptyMapping, \<lparr>currentlyAllocatedCount = 7, enabled = False\<rparr>)"
    using allocate_sequence [of "\<lparr>currentlyAllocatedCount = 7, enabled = False\<rparr>" "[]" 4] dis
    by (simp add: prod_eq_iff)
  have d: "fst (allocateAll newAllocator [3, 5, 2]) =
      [\<lparr>baseIndex = 0, count = 3\<rparr>, \<lparr>baseIndex = 3, count = 5\<rparr>, \<lparr>baseIndex = 8, count = 2\<rparr>]"
    by (simp add: newAllocator_def allocate_def)
  from a b c d show ?thesis by simp
qed

section \<open>Properties of the ring buffer\<close>

text \<open>Rotations that stay below the wrap-around behave as documented (scenario 5).\<close>

lemma rotate_ring5_by_2:
  "rotate_ring ring5 2 = Some \<lparr>storage = ''ABCDE'', zero = 3\<rparr> \<and>
   elements \<lparr>storage = ''ABCDE'', zero = 3\<rparr> = map Some ''DEABC''"
  by (simp add: ring5_def rotate_ring_def size_ring_def elements_def at_ring_def upt_rec)

text \<open>
  Claim C6. For a ring of size \<open>N \<ge> 1\<close> and every integer \<open>k\<close>, \<^verbatim>\<open>rotate(+k)\<close>
  followed by \<^verbatim>\<open>rotate(-k)\<close> restores the zero index and the logical element order.
  The code does not: on the five-element ring with origin 0, \<^verbatim>\<open>rotate(7)\<close> computes
  \<open>(5 - 7) mod 5\<close> on 64-bit unsigned values, that is \<open>(2 ^ 64 - 2) mod 5 = 4\<close>, and
  \<^verbatim>\<open>rotate(-7)\<close> then gives \<open>(4 + 5 + 7) mod 5 = 1\<close>: the origin ends at 1 and the
  logical order is \<open>BCDEA\<close>, not \<open>ABCDE\<close>.
\<close>

theorem rotate_then_unrotate_ring5:
  "rotate_ring ring5 7 = Some \<lparr>storage = ''ABCDE'', zero = 4\<rparr> \<and>
   Option.bind (rotate_ring ring5 7) (\<lambda>r. rotate_ring r (- 7)) =
      Some \<lparr>storage = ''ABCDE'', zero = 1\<rparr> \<and>
   Option.bind (rotate_ring ring5 7) (\<lambda>r. rotate_ring r (- 7)) \<noteq> Some ring5 \<and>
   elements ring5 = map Some ''ABCDE'' \<and>
   elements \<lparr>storage = ''ABCDE'', zero = 1\<rparr> = map Some ''BCDEA''"
  by (simp add: ring5_def rotate_ring_def size_ring_def elements_def at_ring_def upt_rec)

text \<open>
  Claim C7. For a ring of size \<open>N \<ge> 1\<close> and every \<open>k\<close> with \<open>|k| \<ge> N\<close>,
  \<^verbatim>\<open>rotate(k)\<close> leaves the ring in the state \<^verbatim>\<open>rotate(k mod N)\<close> leaves it in.
  The code does not: on the five-element ring with origin 0, \<^verbatim>\<open>rotate(7)\<close> moves the
  origin to 4, while \<^verbatim>\<open>rotate(7 mod 5)\<close>, that is \<^verbatim>\<open>rotate(2)\<close>, moves it to 3.
\<close>

theorem rotate_7_versus_rotate_2_ring5:
  "rotate_ring ring5 7 = Some \<lparr>storage = ''ABCDE'', zero = 4\<rparr> \<and>
   rotate_ring ring5 (7 mod 5) = Some \<lparr>storage = ''ABCDE'', zero = 3\<rparr> \<and>
   rotate_ring ring5 7 \<noteq> rotate_ring ring5 (7 mod 5) \<and>
   elements \<lparr>storage = ''ABCDE'', zero = 4\<rparr> = map Some ''EABCD'' \<and>
   elements \<lparr>storage = ''ABCDE'', zero = 3\<rparr> = map Some ''DEABC''"
  by (simp add: ring5_def rotate_ring_def size_ring_def elements_def at_ring_def upt_rec)

section \<open>Properties of the tile slicing\<close>

lemma unat_plus_4_mod_4: "unat (x + (4 :: u32)) mod 4 = unat x mod 4"
proof -
  have "unat (x + 4) = (unat x + 4) mod 2 ^ 32"
    by (simp add: unat_word_ariths)
  moreover have "(4::nat) dvd 2 ^ 32" by simp
  ultimately have "unat (x + 4) mod 4 = (unat x + 4) mod 4"
    by (simp add: mod_mod_cancel)
  then show ?thesis by simp
qed

text \<open>
  With a tile width of 4, an iterator whose \<open>beginX\<close> and \<open>endX\<close> are multiples of 4
  keeps them so, also across the wrap-around at \<open>2 ^ 32\<close>; it never meets an end
  iterator at 6.
\<close>

lemma iterate_multiples_of_4:
  "it_tileWidth it = 4 \<Longrightarrow> unat (beginX (it_value it)) mod 4 = 0 \<Longrightarrow>
   unat (endX (it_value it)) mod 4 = 0 \<Longrightarrow> beginX (it_value e) = 6 \<Longrightarrow>
   iterate fuel it e = None"
proof (induction fuel arbitrary: it)
  case 0
  then show ?case by simp
next
  case (Suc fuel)
  have ne: "it_ne it e"
  proof -
    have "beginX (it_value it) \<noteq> 6"
    proof
      assume "beginX (it_value it) = 6"
      with Suc.prems(2) show False by simp
    qed
    with Suc.prems(4) show ?thesis by (simp add: it_ne_def)
  qed
  have "iterate fuel (it_next it) e = None"
  proof (rule Suc.IH)
    show "it_tileWidth (it_next it) = 4" using Suc.prems(1) by (simp add: it_next_def)
    show "unat (beginX (it_value (it_next it))) mod 4 = 0"
      using Suc.prems(3) by (simp add: it_next_def)
    show "unat (endX (it_value (it_next it))) mod 4 = 0"
      using Suc.prems(1,3) by (simp add: it_next_def unat_plus_4_mod_4)
    show "beginX (it_value e) = 6" by (rule Suc.prems(4))
  qed
  with ne show ?case by simp
qed

text \<open>
  Where the bitmap's width is a multiple of the tile width the loop ends and the slices
  tile the width; from an offset other than 0 the first slice ends at \<open>tileWidth\<close>.
\<close>

lemma slices_width_8:
  "slices 3 4 0 \<lparr>width = 8, height = h\<rparr> =
     Inr (Some [\<lparr>sliceIndex = 0, beginX = 0, endX = 4\<rparr>, \<lparr>sliceIndex = 1, beginX = 4, endX = 8\<rparr>]) \<and>
   slices 3 4 2 \<lparr>width = 8, height = h\<rparr> =
     Inr (Some [\<lparr>sliceIndex = 0, beginX = 2, endX = 4\<rparr>, \<lparr>sliceIndex = 1, beginX = 4, endX = 8\<rparr>])"
  by (simp add: slices_def end_it_def offsetForEndX_def sliced_def begin_it_def it_ne_def
      it_next_def numeral_3_eq_3)

text \<open>
  Claim C8. For every \<open>tileWidth > 0\<close>, every \<open>offsetX\<close> and every \<open>bitmapSize\<close>,
  iterating \<^verbatim>\<open>sliced(tileWidth, offsetX, bitmapSize)\<close> from \<^verbatim>\<open>begin()\<close> to
  \<^verbatim>\<open>end()\<close> terminates and yields slices of width \<open>tileWidth\<close> that cover the
  bitmap's width. The code does not terminate for a tile width of 4, offset 0 and a bitmap
  5 pixels wide: \<^verbatim>\<open>offsetForEndX()\<close> is \<open>5 + 5 mod 4 = 6\<close>, and \<open>beginX\<close> runs
  through 0, 4, 8, ..., all multiples of 4, so that \<^verbatim>\<open>it != end()\<close> holds for ever:
  whatever the number of steps allowed, the loop has not ended.
\<close>

theorem sliced_4_0_5_never_ends:
  "slices fuel 4 0 \<lparr>width = 5, height = h\<rparr> = Inr None"
  by (simp add: slices_def end_it_def offsetForEndX_def sliced_def begin_it_def
      iterate_multiples_of_4)

section \<open>Evaluating the geometry\<close>

lemma nextPowerOfTwo_values:
  "nextPowerOfTwo 4 = 4" "nextPowerOfTwo 16 = 16" "nextPowerOfTwo 32 = 32"
  "nextPowerOfTwo 64 = 64" "nextPowerOfTwo 80 = 128" "nextPowerOfTwo 160 = 256"
  "nextPowerOfTwo 128 = 128" "nextPowerOfTwo 192 = 256" "nextPowerOfTwo 72000 = 131072"
  by (simp_all add: nextPowerOfTwo_def nextPow2_from.simps)

lemma ceilSqrt_values: "ceilSqrt 4 = 2" "ceilSqrt 64 = 8" "ceilSqrt 128 = 12"
  by (simp_all add: ceilSqrt_def ceilSqrt_from.simps)

lemma computeAtlasSize_props1: "computeAtlasSize props1 = Inr \<lparr>width = 16, height = 32\<rparr>"
  by (simp add: computeAtlasSize_def props1_def nextPowerOfTwo_values ceilSqrt_values)

lemma computeAtlasSize_props3: "computeAtlasSize props3 = Inr \<lparr>width = 16, height = 32\<rparr>"
  by (simp add: computeAtlasSize_def props3_def nextPowerOfTwo_values ceilSqrt_values)

lemma computeAtlasSize_props6: "computeAtlasSize props6 = Inr \<lparr>width = 128, height = 256\<rparr>"
  by (simp add: computeAtlasSize_def props6_def nextPowerOfTwo_values ceilSqrt_values)






section \<open>The constructor\<close>

text \<open>When the constructor returns an atlas, and which.\<close>

lemma newTextureAtlasI:
  assumes "computeAtlasSize p = Inr sz"
    and "width (tileSize p) \<noteq> 0" and "height (tileSize p) \<noteq> 0"
    and "tx = width sz div width (tileSize p)" and "ty = height sz div height (tileSize p)"
    and "unat (directMappingCount p + tileCount p) \<le> unat (tx * ty)"
  shows "newTextureAtlas be p m0 =
     Inr \<lparr>backend = be @ [ConfigureAtlas sz p], atlasProperties = p, atlasSize = sz,
          tilesInX = tx, tilesInY = ty, tileCache = create (tx * ty) (tx * ty),
          tileLocations = map (tileLocationFor tx (tileSize p)) [0..<unat (tx * ty)],
          directMapping = replicate (unat (directMappingCount p))
             \<lparr>location = \<lparr>x_value = 0, y_value = 0\<rparr>,
              attr_bitmapSize = \<lparr>width = 0, height = 0\<rparr>, attr_metadata = m0\<rparr>\<rparr>"
  using assms by (simp add: newTextureAtlas_def Require_def Let_def)

lemma newTextureAtlasE:
  assumes "newTextureAtlas be p m0 = Inr a"
  obtains sz where "computeAtlasSize p = Inr sz"
    and "width (tileSize p) \<noteq> 0" and "height (tileSize p) \<noteq> 0"
    and "unat (directMappingCount p + tileCount p)
           \<le> unat (width sz div width (tileSize p) * (height sz div height (tileSize p)))"
    and "a = \<lparr>backend = be @ [ConfigureAtlas sz p], atlasProperties = p, atlasSize = sz,
          tilesInX = width sz div width (tileSize p), tilesInY = height sz div height (tileSize p),
          tileCache = create (width sz div width (tileSize p) * (height sz div height (tileSize p)))
                             (width sz div width (tileSize p) * (height sz div height (tileSize p))),
          tileLocations = map (tileLocationFor (width sz div width (tileSize p)) (tileSize p))
             [0..<unat (width sz div width (tileSize p) * (height sz div height (tileSize p)))],
          directMapping = replicate (unat (directMappingCount p))
             \<lparr>location = \<lparr>x_value = 0, y_value = 0\<rparr>,
              attr_bitmapSize = \<lparr>width = 0, height = 0\<rparr>, attr_metadata = m0\<rparr>\<rparr>"
  using assms
  by (auto simp: newTextureAtlas_def Require_def Let_def split: sum.splits if_splits)

lemma newTextureAtlas_fields:
  assumes "newTextureAtlas be p m0 = Inr a"
  shows "computeAtlasSize p = Inr (atlasSize a)"
    and "atlasProperties a = p"
    and "tilesInX a = width (atlasSize a) div width (tileSize p)"
    and "tilesInY a = height (atlasSize a) div height (tileSize p)"
    and "width (tileSize p) \<noteq> 0" and "height (tileSize p) \<noteq> 0"
    and "tileLocations a = map (tileLocationFor (tilesInX a) (tileSize p)) [0..<unat (tilesInX a * tilesInY a)]"
    and "unat (directMappingCount p + tileCount p) \<le> unat (tilesInX a * tilesInY a)"
    and "tileCache a = create (tilesInX a * tilesInY a) (tilesInX a * tilesInY a)"
    and "length (directMapping a) = unat (directMappingCount p)"
    and "backend a = be @ [ConfigureAtlas (atlasSize a) p]"
  using assms by (auto elim!: newTextureAtlasE)


text \<open>The atlases of scenarios 1, 3 and 6 and the wide atlas are what the constructor returns.\<close>

lemma locations_8_by_16:
  "map (tileLocationFor 2 \<lparr>width = 8, height = 16\<rparr>) [0..<4] =
     [\<lparr>x_value = 0, y_value = 0\<rparr>, \<lparr>x_value = 8, y_value = 0\<rparr>,
      \<lparr>x_value = 0, y_value = 16\<rparr>, \<lparr>x_value = 8, y_value = 16\<rparr>]"
  by (simp add: tileLocationFor_def upt_rec)

lemma newTextureAtlas_props1: "newTextureAtlas [] props1 () = Inr atlas1"
proof -
  have ts: "tileSize props1 = \<lparr>width = 8, height = 16\<rparr>" by (simp add: props1_def)
  have "newTextureAtlas [] props1 () =
        Inr \<lparr>backend = [] @ [ConfigureAtlas \<lparr>width = 16, height = 32\<rparr> props1],
          atlasProperties = props1, atlasSize = \<lparr>width = 16, height = 32\<rparr>,
          tilesInX = 2, tilesInY = 2, tileCache = create (2 * 2) (2 * 2),
          tileLocations = map (tileLocationFor 2 (tileSize props1)) [0..<unat (2 * 2 :: u32)],
          directMapping = replicate (unat (directMappingCount props1))
             \<lparr>location = \<lparr>x_value = 0, y_value = 0\<rparr>,
              attr_bitmapSize = \<lparr>width = 0, height = 0\<rparr>, attr_metadata = ()\<rparr>\<rparr>"
    by (rule newTextureAtlasI [OF computeAtlasSize_props1]) (simp_all add: props1_def)
  also have "\<dots> = Inr atlas1"
    using locations_8_by_16 by (simp add: atlas1_def ts) (simp add: props1_def)
  finally show ?thesis .
qed

lemma newTextureAtlas_props3: "newTextureAtlas [] props3 () = Inr atlas3"
proof -
  have ts: "tileSize props3 = \<lparr>width = 8, height = 16\<rparr>" by (simp add: props3_def)
  have "newTextureAtlas [] props3 () =
        Inr \<lparr>backend = [] @ [ConfigureAtlas \<lparr>width = 16, height = 32\<rparr> props3],
          atlasProperties = props3, atlasSize = \<lparr>width = 16, height = 32\<rparr>,
          tilesInX = 2, tilesInY = 2, tileCache = create (2 * 2) (2 * 2),
          tileLocations = map (tileLocationFor 2 (tileSize props3)) [0..<unat (2 * 2 :: u32)],
          directMapping = replicate (unat (directMappingCount props3))
             \<lparr>location = \<lparr>x_value = 0, y_value = 0\<rparr>,
              attr_bitmapSize = \<lparr>width = 0, height = 0\<rparr>, attr_metadata = ()\<rparr>\<rparr>"
    by (rule newTextureAtlasI [OF computeAtlasSize_props3]) (simp_all add: props3_def)
  also have "\<dots> = Inr atlas3"
  proof -
    have m: "(2 * 2 :: u32) = 4" by simp
    have n2: "unat (4 :: u32) = 4" by simp
    have d: "unat (directMappingCount props3) = 2" by (simp add: props3_def)
    show ?thesis unfolding atlas3_def ts m n2 d locations_8_by_16 by (simp only: append_Nil)
  qed
  finally show ?thesis .
qed

lemma newTextureAtlas_props6: "newTextureAtlas [] props6 () = Inr atlas6"
proof -
  have ts: "tileSize props6 = \<lparr>width = 10, height = 20\<rparr>" by (simp add: props6_def)
  have req: "unat (directMappingCount props6 + tileCount props6) \<le> unat (12 * 12 :: u32)"
    by (simp add: props6_def)
  have "newTextureAtlas [] props6 () =
        Inr \<lparr>backend = [] @ [ConfigureAtlas \<lparr>width = 128, height = 256\<rparr> props6],
          atlasProperties = props6, atlasSize = \<lparr>width = 128, height = 256\<rparr>,
          tilesInX = 12, tilesInY = 12, tileCache = create (12 * 12) (12 * 12),
          tileLocations = map (tileLocationFor 12 (tileSize props6)) [0..<unat (12 * 12 :: u32)],
          directMapping = replicate (unat (directMappingCount props6))
             \<lparr>location = \<lparr>x_value = 0, y_value = 0\<rparr>,
              attr_bitmapSize = \<lparr>width = 0, height = 0\<rparr>, attr_metadata = ()\<rparr>\<rparr>"
  proof (rule newTextureAtlasI [OF computeAtlasSize_props6])
    show "unat (directMappingCount props6 + tileCount props6) \<le> unat (12 * 12 :: u32)"
      by (rule req)
  qed (simp_all add: props6_def)
  also have "\<dots> = Inr atlas6"
  proof -
    have m: "(12 * 12 :: u32) = 144" by simp
    have n2: "unat (144 :: u32) = 144" by simp
    have d: "unat (directMappingCount props6) = 4" by (simp add: props6_def)
    show ?thesis unfolding atlas6_def ts m n2 d by (simp only: append_Nil)
  qed
  finally show ?thesis .
qed


lemma capacity_atlas1: "capacity atlas1 = 4"
  by (simp add: capacity_def atlas1_def)

lemma capacity_atlas6: "capacity atlas6 = 144"
  by (simp add: capacity_def atlas6_def)




section \<open>Tile locations of a constructed atlas\<close>

lemma tileLocation_of_new:
  assumes new: "newTextureAtlas be p m0 = Inr a" and i: "i < capacity a"
  shows "tileLocations a ! i = tileLocationFor (tilesInX a) (tileSize p) i"
    and "capacity a = unat (tilesInX a * tilesInY a)"
proof -
  note f = newTextureAtlas_fields [OF new]
  show c: "capacity a = unat (tilesInX a * tilesInY a)"
    by (simp add: capacity_def f(7))
  from i c have i': "i < unat (tilesInX a * tilesInY a)" by simp
  show "tileLocations a ! i = tileLocationFor (tilesInX a) (tileSize p) i"
    using i' by (simp add: f(7))
qed

lemma unat_of_nat_u16: "unat (of_nat n :: u16) = n mod 2 ^ 16"
  by (simp add: unat_of_nat)

text \<open>The stored coordinates are the products reduced to 16 bits.\<close>

lemma tileLocation_values:
  assumes new: "newTextureAtlas be p m0 = Inr a" and i: "i < capacity a"
  shows "unat (x_value (tileLocations a ! i))
           = ((i mod unat (tilesInX a)) * unat (width (tileSize p))) mod 2 ^ 16"
    and "unat (y_value (tileLocations a ! i))
           = ((i div unat (tilesInX a)) * unat (height (tileSize p))) mod 2 ^ 16"
proof -
  note l = tileLocation_of_new(1) [OF new i]
  show "unat (x_value (tileLocations a ! i))
          = ((i mod unat (tilesInX a)) * unat (width (tileSize p))) mod 2 ^ 16"
    unfolding l tileLocationFor_def
    using unat_of_nat_u16 [of "(i mod unat (tilesInX a)) * unat (width (tileSize p))"]
    by (simp del: of_nat_mult)
  show "unat (y_value (tileLocations a ! i))
          = ((i div unat (tilesInX a)) * unat (height (tileSize p))) mod 2 ^ 16"
    unfolding l tileLocationFor_def
    using unat_of_nat_u16 [of "(i div unat (tilesInX a)) * unat (height (tileSize p))"]
    by (simp del: of_nat_mult)
qed

text \<open>
  The products themselves stay inside the texture: a tile's far edges do not pass the
  texture's.
\<close>

lemma tile_products_inside:
  assumes new: "newTextureAtlas be p m0 = Inr a" and i: "i < capacity a"
  shows "(i mod unat (tilesInX a)) * unat (width (tileSize p)) + unat (width (tileSize p))
           \<le> unat (width (atlasSize a))"
    and "(i div unat (tilesInX a)) * unat (height (tileSize p)) + unat (height (tileSize p))
           \<le> unat (height (atlasSize a))"
    and "0 < unat (width (tileSize p))" and "0 < unat (height (tileSize p))"
proof -
  note f = newTextureAtlas_fields [OF new]
  let ?tx = "unat (tilesInX a)" and ?ty = "unat (tilesInY a)"
  let ?w = "unat (width (tileSize p))" and ?h = "unat (height (tileSize p))"
  let ?W = "unat (width (atlasSize a))" and ?H = "unat (height (atlasSize a))"
  have tx: "?tx = ?W div ?w" by (simp add: f(3) unat_div)
  have ty: "?ty = ?H div ?h" by (simp add: f(4) unat_div)
  show "0 < ?w" using f(5) by (simp add: unat_gt_0)
  show "0 < ?h" using f(6) by (simp add: unat_gt_0)
  have cap: "capacity a \<le> ?tx * ?ty"
  proof -
    have "capacity a = (?tx * ?ty) mod 2 ^ 32"
      by (simp add: tileLocation_of_new(2) [OF new i] unat_word_ariths)
    then show ?thesis by simp
  qed
  with i have i': "i < ?tx * ?ty" by simp
  then have tx0: "0 < ?tx" by (cases "?tx = 0") simp_all
  have "i mod ?tx < ?tx" using tx0 by simp
  then have "i mod ?tx + 1 \<le> ?tx" by simp
  then have "(i mod ?tx + 1) * ?w \<le> ?tx * ?w" by (rule mult_le_mono1)
  also have "\<dots> \<le> ?W" by (simp add: tx)
  finally show "(i mod ?tx) * ?w + ?w \<le> ?W" by simp
  have "i div ?tx < ?ty" using i' by (simp add: less_mult_imp_div_less mult.commute)
  then have "i div ?tx + 1 \<le> ?ty" by simp
  then have "(i div ?tx + 1) * ?h \<le> ?ty * ?h" by (rule mult_le_mono1)
  also have "\<dots> \<le> ?H" by (simp add: ty)
  finally show "(i div ?tx) * ?h + ?h \<le> ?H" by simp
qed

lemma tile_fits_atlas:
  assumes new: "newTextureAtlas be p m0 = Inr a" and i: "i < capacity a"
  shows "unat (x_value (tileLocations a ! i)) + unat (width (tileSize p)) \<le> unat (width (atlasSize a))"
    and "unat (y_value (tileLocations a ! i)) + unat (height (tileSize p)) \<le> unat (height (atlasSize a))"
proof -
  have "unat (x_value (tileLocations a ! i))
          \<le> (i mod unat (tilesInX a)) * unat (width (tileSize p))"
    by (simp add: tileLocation_values(1) [OF new i])
  with tile_products_inside(1) [OF new i]
  show "unat (x_value (tileLocations a ! i)) + unat (width (tileSize p)) \<le> unat (width (atlasSize a))"
    by simp
  have "unat (y_value (tileLocations a ! i))
          \<le> (i div unat (tilesInX a)) * unat (height (tileSize p))"
    by (simp add: tileLocation_values(2) [OF new i])
  with tile_products_inside(2) [OF new i]
  show "unat (y_value (tileLocations a ! i)) + unat (height (tileSize p)) \<le> unat (height (atlasSize a))"
    by simp
qed





section \<open>What the operations leave unchanged\<close>

lemma get_or_emplace_geometry:
  "get_or_emplace a key f = Inr (v, a') \<Longrightarrow> geometry a' = geometry a"
  by (auto simp: get_or_emplace_def geometry_def split: sum.splits prod.splits)

lemma get_or_try_emplace_geometry:
  "get_or_try_emplace a key f = Inr (r, a') \<Longrightarrow> geometry a' = geometry a"
  by (auto simp: get_or_try_emplace_def geometry_def split: sum.splits prod.splits)

lemma emplace_geometry:
  "emplace a key f = Inr a' \<Longrightarrow> geometry a' = geometry a"
  by (auto simp: emplace_def geometry_def split: sum.splits prod.splits)

lemma try_get_geometry: "geometry (snd (try_get a key)) = geometry a"
  by (simp add: try_get_def geometry_def split: prod.splits)

lemma remove_geometry: "geometry (remove a key) = geometry a"
  by (simp add: remove_def geometry_def)

lemma reset_geometry: "geometry (reset a p) = geometry a"
  by (simp add: reset_def geometry_def)

lemma setDirectMapping_geometry:
  "setDirectMapping a index d = Inr a' \<Longrightarrow> geometry a' = geometry a"
  by (auto simp: setDirectMapping_def geometry_def Require_def Let_def split: sum.splits if_splits)

lemma apply_op_geometry: "apply_op a x = Inr a' \<Longrightarrow> geometry a' = geometry a"
proof (cases x)
  case (GetOrEmplace key f)
  assume "apply_op a x = Inr a'"
  with GetOrEmplace obtain v where "get_or_emplace a key f = Inr (v, a')"
    by (cases "get_or_emplace a key f") auto
  then show ?thesis by (rule get_or_emplace_geometry)
next
  case (TryGet key)
  assume "apply_op a x = Inr a'"
  with TryGet show ?thesis using try_get_geometry [of a key] by auto
next
  case (GetOrTryEmplace key f)
  assume "apply_op a x = Inr a'"
  with GetOrTryEmplace obtain r where "get_or_try_emplace a key f = Inr (r, a')"
    by (cases "get_or_try_emplace a key f") auto
  then show ?thesis by (rule get_or_try_emplace_geometry)
next
  case (Emplace key f)
  assume "apply_op a x = Inr a'"
  with Emplace show ?thesis by (simp add: emplace_geometry)
next
  case (Remove key)
  assume "apply_op a x = Inr a'"
  with Remove show ?thesis using remove_geometry [of a key] by auto
next
  case (Reset p)
  assume "apply_op a x = Inr a'"
  with Reset show ?thesis using reset_geometry [of a p] by auto
next
  case (SetDirectMapping index d)
  assume "apply_op a x = Inr a'"
  with SetDirectMapping show ?thesis by (simp add: setDirectMapping_geometry)
qed

lemma apply_ops_geometry: "apply_ops a xs = Inr a' \<Longrightarrow> geometry a' = geometry a"
proof (induction xs arbitrary: a)
  case Nil
  then show ?case by simp
next
  case (Cons x xs)
  from Cons.prems obtain a1 where 1: "apply_op a x = Inr a1" and 2: "apply_ops a1 xs = Inr a'"
    by (auto split: sum.splits)
  from Cons.IH [OF 2] apply_op_geometry [OF 1] show ?case by simp
qed

text \<open>Building a tile for the key 7 in the atlas of scenario 1, then more operations.\<close>

lemma get_or_try_emplace_atlas1:
  "get_or_try_emplace atlas1 7 (\<lambda>loc i. Some tile0) =
     Inr (Some \<lparr>location = \<lparr>x_value = 0, y_value = 0\<rparr>,
                 attr_bitmapSize = \<lparr>width = 2, height = 1\<rparr>, attr_metadata = ()\<rparr>, atlas1_one)"
  by (simp add: get_or_try_emplace_def lru_get_or_try_emplace_def atlas1_def lru_find_def
      lru_allocate_def create_def constructTile_def props1_def tile0_def lru_insert_def
      atlas1_one_def upt_rec Let_def)

lemma ops_atlas1:
  "apply_ops atlas1 [GetOrTryEmplace 7 (\<lambda>loc i. Some tile0), Reset props2, TryGet 7] =
     Inr (atlas1\<lparr>backend := backend atlas1 @
                    [UploadTile \<lparr>x_value = 0, y_value = 0\<rparr> [0, 0] \<lparr>width = 2, height = 1\<rparr> Red],
                  atlasProperties := props2\<rparr>)"
  by (simp add: get_or_try_emplace_def lru_get_or_try_emplace_def atlas1_def lru_find_def
      lru_allocate_def create_def constructTile_def props1_def tile0_def reset_def lru_clear_def
      lru_insert_def try_get_def lru_try_get_def upt_rec Let_def)

text \<open>
  Claim C5. For every constructed atlas and every \<open>i\<close> below its capacity,
  \<open>tileLocations[i]\<close> never changes over the atlas's lifetime and satisfies
  \<open>tileLocations[i].x < atlasWidth - tileSize.w\<close> and
  \<open>tileLocations[i].y < atlasHeight - tileSize.h\<close>. The strict bound fails: in the atlas
  of scenario 1 (tiles of 8 by 16 pixels in a texture of 16 by 32) tile 1 lies at
  \<open>x = 8\<close>, which is \<open>atlasWidth - tileSize.w\<close> itself.
\<close>

theorem tile_locations_strict_bound_fails:
  "newTextureAtlas [] props1 () = Inr atlas1 \<and> 1 < capacity atlas1 \<and>
   tileLocation atlas1 1 = Inr \<lparr>x_value = 8, y_value = 0\<rparr> \<and>
   unat (width (atlasSize atlas1)) - unat (width (atlas_tileSize atlas1)) = 8 \<and>
   \<not> unat (x_value (tileLocations atlas1 ! 1))
       < unat (width (atlasSize atlas1)) - unat (width (atlas_tileSize atlas1))"
  by (simp add: newTextureAtlas_props1 capacity_atlas1)
     (simp add: atlas1_def tileLocation_def atlas_tileSize_def props1_def)

text \<open>
  Claim C5, as amended. For every atlas constructed from properties \<open>p\<close>, every sequence
  of operations on it that succeeds and every \<open>i\<close> below the capacity: the tile
  locations, the atlas size and the capacity are what they were after construction, and
  tile \<open>i\<close> lies inside the texture, \<open>x + tileSize.w \<le> atlasWidth\<close> and
  \<open>y + tileSize.h \<le> atlasHeight\<close>, for the tile size \<open>p\<close> gave the constructor.
\<close>

theorem tile_locations_constant_and_inside:
  assumes new: "newTextureAtlas be p m0 = Inr a"
    and ops: "apply_ops a xs = Inr a'"
    and i: "i < capacity a"
  shows "tileLocations a' = tileLocations a \<and> atlasSize a' = atlasSize a \<and>
         capacity a' = capacity a \<and>
         tileLocation a' (of_nat i) = tileLocation a (of_nat i) \<and>
         unat (x_value (tileLocations a' ! i)) + unat (width (tileSize p))
           \<le> unat (width (atlasSize a')) \<and>
         unat (y_value (tileLocations a' ! i)) + unat (height (tileSize p))
           \<le> unat (height (atlasSize a'))"
proof -
  from apply_ops_geometry [OF ops]
  have same: "tileLocations a' = tileLocations a" "atlasSize a' = atlasSize a"
    by (simp_all add: geometry_def)
  from tile_fits_atlas [OF new i] same show ?thesis
    by (simp add: capacity_def tileLocation_def)
qed

text \<open>
  The atlas of scenario 1 after building a tile, a reset to other properties and a lookup:
  tile 3 still lies at \<open>(8, 16)\<close>, inside the texture of 16 by 32 pixels.
\<close>

theorem tile_locations_constant_and_inside_witness:
  "newTextureAtlas [] props1 () = Inr atlas1 \<and>
   apply_ops atlas1 [GetOrTryEmplace 7 (\<lambda>loc i. Some tile0), Reset props2, TryGet 7] =
     Inr (atlas1\<lparr>backend := backend atlas1 @
                    [UploadTile \<lparr>x_value = 0, y_value = 0\<rparr> [0, 0] \<lparr>width = 2, height = 1\<rparr> Red],
                  atlasProperties := props2\<rparr>) \<and>
   (3::nat) < capacity atlas1 \<and>
   unat (x_value (tileLocations atlas1 ! 3)) + 8 \<le> (16::nat) \<and>
   unat (y_value (tileLocations atlas1 ! 3)) + 16 \<le> (32::nat)"
proof -
  have i: "(3::nat) < capacity atlas1" by (simp add: capacity_atlas1)
  from tile_locations_constant_and_inside [OF newTextureAtlas_props1 ops_atlas1 i]
  have "unat (x_value (tileLocations atlas1 ! 3)) + unat (width (tileSize props1))
          \<le> unat (width (atlasSize atlas1))"
    and "unat (y_value (tileLocations atlas1 ! 3)) + unat (height (tileSize props1))
          \<le> unat (height (atlasSize atlas1))"
    by simp_all
  then have "unat (x_value (tileLocations atlas1 ! 3)) + 8 \<le> (16::nat)"
    and "unat (y_value (tileLocations atlas1 ! 3)) + 16 \<le> (32::nat)"
    by (simp_all add: props1_def atlas1_def)
  with newTextureAtlas_props1 ops_atlas1 i show ?thesis by simp
qed

section \<open>The capacity of the tile cache\<close>

lemma lru_capacity_new:
  "newTextureAtlas be p m0 = Inr a \<Longrightarrow> lru_capacity (tileCache a) = tilesInX a * tilesInY a"
  by (simp add: newTextureAtlas_fields(9) create_def)

text \<open>
  Claim C1. For every backend and properties, the constructor creates the LRU table with
  capacity \<open>tilesInX * tilesInY - directMappingCount\<close>. The code passes
  \<^verbatim>\<open>LRUCapacity { _tilesInX * _tilesInY }\<close>: for scenario 6 the table's capacity is 144
  where the claim has 140. \<^verbatim>\<open>constructTile\<close> adds \<open>directMappingCount\<close> to the entry
  index before it reads \<^verbatim>\<open>_tileLocations\<close>, so the entry indices 140 to 143, which a
  table of capacity 144 hands out once it holds 140 entries, are read beyond the end of
  the 144 tile locations; 139 is the last that is not.
\<close>

theorem lru_capacity_atlas6:
  "newTextureAtlas [] props6 () = Inr atlas6 \<and>
   lru_capacity (tileCache atlas6) = 144 \<and>
   tilesInX atlas6 * tilesInY atlas6 - directMappingCount (atlasProperties atlas6) = 140 \<and>
   lru_capacity (tileCache atlas6) \<noteq>
     tilesInX atlas6 * tilesInY atlas6 - directMappingCount (atlasProperties atlas6) \<and>
   capacity atlas6 = 144 \<and>
   constructTile atlas6 f 139 be \<noteq> Inl OutOfBounds \<and>
   constructTile atlas6 f 140 be = Inl OutOfBounds \<and>
   constructTile atlas6 f 143 be = Inl OutOfBounds"
  by (simp add: newTextureAtlas_props6 capacity_atlas6)
     (simp add: atlas6_def create_def props6_def constructTile_def Let_def split: option.split)

section \<open>A declined build\<close>

text \<open>
  Where the table has an entry index to offer and the tile index of that entry lies within
  the tile locations, a declined build for an absent key returns null and leaves the atlas
  as it was: no \<^verbatim>\<open>uploadTile\<close>, the same entries in the same order, the same free
  indices.
\<close>

lemma get_or_try_emplace_declined_inside:
  assumes absent: "\<not> contains a h"
    and declines: "\<forall>loc i. f loc i = None"
    and alloc: "lru_allocate (tileCache a) = Inr (i, t')"
    and inside: "unat (i + directMappingCount (atlasProperties a)) < length (tileLocations a)"
  shows "get_or_try_emplace a h f = Inr (None, a)"
proof -
  from absent have miss: "lru_find (tileCache a) h = None"
    by (simp add: contains_def lru_contains_def)
  from declines inside have build: "constructTile a f i (backend a) = Inr (None, backend a)"
    by (simp add: constructTile_def Let_def)
  from miss alloc build
  have "lru_get_or_try_emplace (tileCache a) h (constructTile a f) (backend a) =
          Inr (None, tileCache a, backend a)"
    by (simp add: lru_get_or_try_emplace_def)
  then show ?thesis by (simp add: get_or_try_emplace_def)
qed

lemma get_or_try_emplace_declined_atlas1_one:
  "\<not> contains atlas1_one 9 \<and> lru_size (tileCache atlas1_one) = 1 \<and>
   get_or_try_emplace atlas1_one 9 (\<lambda>loc i. None) = Inr (None, atlas1_one)"
proof -
  have absent: "\<not> contains atlas1_one 9"
    by (simp add: contains_def lru_contains_def lru_find_def atlas1_one_def)
  have declines:
    "\<forall>loc i. (\<lambda>(loc :: TileLocation) (i :: u32). (None :: unit TileCreateData option)) loc i = None"
    by simp
  have alloc: "lru_allocate (tileCache atlas1_one) =
     Inr (1, (tileCache atlas1_one)\<lparr>lru_free := [2, 3]\<rparr>)"
    by (simp add: lru_allocate_def atlas1_one_def)
  have inside:
    "unat (1 + directMappingCount (atlasProperties atlas1_one)) < length (tileLocations atlas1_one)"
    by (simp add: atlas1_one_def atlas1_def props1_def)
  have sz: "lru_size (tileCache atlas1_one) = 1"
    by (simp add: lru_size_def atlas1_one_def)
  from get_or_try_emplace_declined_inside [OF absent declines alloc inside] absent sz
  show ?thesis by simp
qed

text \<open>The atlas of scenario 3 after tiles have been built for the keys 1 and 2.\<close>

lemma ops_atlas3:
  "apply_ops atlas3 [GetOrTryEmplace 1 (\<lambda>loc i. Some tile0), GetOrTryEmplace 2 (\<lambda>loc i. Some tile0)]
     = Inr atlas3_two"
  by (simp add: get_or_try_emplace_def lru_get_or_try_emplace_def atlas3_def lru_find_def
      lru_allocate_def create_def constructTile_def props3_def tile0_def lru_insert_def
      atlas3_two_def upt_rec Let_def)

text \<open>
  Claim C2. For every key \<open>h\<close> absent from the cache and every build function that
  returns none, \<^verbatim>\<open>get_or_try_emplace(h, fn)\<close> returns null, issues no
  \<^verbatim>\<open>uploadTile\<close>, consumes no entry slot, and afterwards \<open>contains(h)\<close> is false with
  the live entry count and LRU order unchanged. The code does not get that far in the atlas
  of scenario 3 (4 tile locations, 2 of them direct-mapped, a table of capacity 4) once
  two tiles are cached: the key 3 is absent, the table offers the entry index 2, and
  \<^verbatim>\<open>constructTile\<close> reads \<^verbatim>\<open>_tileLocations[2 + 2]\<close>, beyond the end of the 4 tile
  locations, before it calls the build function. Only the entry indices 0 and 1 are within
  the locations, so any order in which a table of capacity 4 hands out its indices reaches
  such a read by the third live entry.
\<close>

theorem get_or_try_emplace_declined_atlas3:
  "newTextureAtlas [] props3 () = Inr atlas3 \<and>
   apply_ops atlas3 [GetOrTryEmplace 1 (\<lambda>loc i. Some tile0), GetOrTryEmplace 2 (\<lambda>loc i. Some tile0)]
     = Inr atlas3_two \<and>
   \<not> contains atlas3_two 3 \<and> lru_size (tileCache atlas3_two) = 2 \<and>
   lru_capacity (tileCache atlas3_two) = 4 \<and> capacity atlas3_two = 4 \<and>
   get_or_try_emplace atlas3_two 3 (\<lambda>loc i. None) = Inl OutOfBounds \<and>
   constructTile atlas3_two f 1 be \<noteq> Inl OutOfBounds \<and>
   constructTile atlas3_two f 2 be = Inl OutOfBounds \<and>
   constructTile atlas3_two f 3 be = Inl OutOfBounds"
proof -
  have rest:
    "\<not> contains atlas3_two 3 \<and> lru_size (tileCache atlas3_two) = 2 \<and>
     lru_capacity (tileCache atlas3_two) = 4 \<and> capacity atlas3_two = 4 \<and>
     get_or_try_emplace atlas3_two 3 (\<lambda>loc i. None) = Inl OutOfBounds \<and>
     constructTile atlas3_two f 1 be \<noteq> Inl OutOfBounds \<and>
     constructTile atlas3_two f 2 be = Inl OutOfBounds \<and>
     constructTile atlas3_two f 3 be = Inl OutOfBounds"
    by (simp add: get_or_try_emplace_def lru_get_or_try_emplace_def contains_def lru_contains_def
        lru_find_def lru_size_def lru_allocate_def capacity_def constructTile_def atlas3_two_def
        atlas3_def props3_def Let_def split: option.split)
  show ?thesis
    apply (rule conjI)
     apply (rule newTextureAtlas_props3)
    apply (rule conjI)
     apply (rule ops_atlas3)
    apply (rule rest)
    done
qed

section \<open>Reset\<close>

text \<open>
  Claim C4. \<^verbatim>\<open>reset(properties)\<close> clears the LRU table while keeping the tile
  locations and the direct mapping, does not reissue \<^verbatim>\<open>configureAtlas\<close> when the
  geometry is unchanged, and fails when the properties' derived geometry differs from the
  construction-time geometry. The last part does not hold: reset of the atlas of scenario
  6 (a texture of 128 by 256 pixels) to the properties of scenario 1 (which derive a
  texture of 16 by 32) succeeds, stores the new properties and keeps the old atlas size.
\<close>

theorem reset_with_other_geometry:
  "newTextureAtlas [] props6 () = Inr atlas6 \<and>
   atlasSize atlas6 = \<lparr>width = 128, height = 256\<rparr> \<and>
   computeAtlasSize props1 = Inr \<lparr>width = 16, height = 32\<rparr> \<and>
   computeAtlasSize props1 \<noteq> Inr (atlasSize atlas6) \<and>
   apply_op atlas6 (Reset props1) = Inr (reset atlas6 props1) \<and>
   atlasProperties (reset atlas6 props1) = props1 \<and>
   atlasSize (reset atlas6 props1) = \<lparr>width = 128, height = 256\<rparr>"
  by (simp add: newTextureAtlas_props6 computeAtlasSize_props1)
     (simp add: atlas6_def reset_def)

text \<open>
  Claim C4, as amended. \<^verbatim>\<open>reset(properties)\<close> always succeeds: it stores the new
  properties and clears the LRU table (no live entry, no key contained), and keeps the
  tile locations, the direct mapping, the atlas size and the grid; the backend receives no
  command, so \<^verbatim>\<open>configureAtlas\<close> is not reissued, whether or not the properties derive
  the geometry the atlas was constructed with.
\<close>

theorem reset_clears_cache_only:
  "apply_op a (Reset p) = Inr (reset a p) \<and>
   atlasProperties (reset a p) = p \<and>
   lru_entries (tileCache (reset a p)) = [] \<and>
   lru_size (tileCache (reset a p)) = 0 \<and>
   \<not> contains (reset a p) h \<and>
   tileLocations (reset a p) = tileLocations a \<and>
   directMapping (reset a p) = directMapping a \<and>
   atlasSize (reset a p) = atlasSize a \<and>
   tilesInX (reset a p) = tilesInX a \<and>
   tilesInY (reset a p) = tilesInY a \<and>
   backend (reset a p) = backend a"
  by (simp add: reset_def lru_clear_def lru_size_def contains_def lru_contains_def lru_find_def)

text \<open>
  The atlas of scenario 1 holding the key 7, reset to properties that derive another
  geometry: the key is gone, the locations, the backend's commands and the atlas size stay.
\<close>

theorem reset_clears_cache_only_witness:
  "contains atlas1_one 7 \<and> lru_size (tileCache atlas1_one) = 1 \<and>
   computeAtlasSize props2 \<noteq> Inr (atlasSize atlas1_one) \<and>
   \<not> contains (reset atlas1_one props2) 7 \<and>
   lru_size (tileCache (reset atlas1_one props2)) = 0 \<and>
   tileLocations (reset atlas1_one props2) = tileLocations atlas1 \<and>
   backend (reset atlas1_one props2) = backend atlas1_one \<and>
   atlasSize (reset atlas1_one props2) = \<lparr>width = 16, height = 32\<rparr>"
proof -
  have a: "contains atlas1_one 7" "lru_size (tileCache atlas1_one) = 1"
    by (simp_all add: contains_def lru_contains_def lru_find_def lru_size_def atlas1_one_def)
  have b: "computeAtlasSize props2 \<noteq> Inr (atlasSize atlas1_one)"
    by (simp add: computeAtlasSize_def props2_def nextPowerOfTwo_values ceilSqrt_values
        atlas1_one_def atlas1_def)
  have c: "tileLocations atlas1_one = tileLocations atlas1"
    "atlasSize atlas1_one = \<lparr>width = 16, height = 32\<rparr>"
    by (simp_all add: atlas1_one_def atlas1_def)
  from reset_clears_cache_only [of atlas1_one props2 7] a b c show ?thesis by simp
qed

section \<open>Index checks\<close>

lemma tileLocation_beyond_capacity:
  "\<not> unat i < capacity a \<Longrightarrow> tileLocation a i = Inl OutOfBounds"
  by (simp add: tileLocation_def capacity_def)

text \<open>
  Claim C9. \<^verbatim>\<open>setDirectMapping(index, d)\<close> or \<^verbatim>\<open>directMapped(index)\<close> with an index
  of \<open>directMappingCount\<close> or more, or \<^verbatim>\<open>tileLocation(i)\<close> with \<open>i\<close> of the capacity
  or more, is rejected as a precondition violation rather than reading or writing outside
  its range. \<^verbatim>\<open>tileLocation\<close> has no such check: in the atlas of scenario 6, whose
  capacity is 144, \<^verbatim>\<open>tileLocation(144)\<close> is an unchecked read beyond the end of the
  tile locations, not a failed requirement.
\<close>

theorem tileLocation_unchecked:
  "capacity atlas6 = 144 \<and> \<not> unat (144 :: u32) < capacity atlas6 \<and>
   tileLocation atlas6 144 = Inl OutOfBounds \<and> tileLocation atlas6 144 \<noteq> Inl RequireFailed"
  by (simp add: capacity_atlas6) (simp add: tileLocation_def atlas6_def)

text \<open>
  Claim C9, as amended. \<^verbatim>\<open>setDirectMapping(index, d)\<close> and \<^verbatim>\<open>directMapped(index)\<close>
  with an index that is not below the number of direct-mapped slots are rejected as a
  precondition violation; the number of slots is the \<open>directMappingCount\<close> the atlas
  was constructed with, whatever operations have run on it since.
\<close>

theorem direct_mapping_index_checked:
  "(\<not> unat index < length (directMapping a) \<longrightarrow>
      directMapped a index = Inl RequireFailed \<and> setDirectMapping a index d = Inl RequireFailed) \<and>
   (newTextureAtlas be p m0 = Inr a0 \<and> apply_ops a0 xs = Inr a \<longrightarrow>
      length (directMapping a) = unat (directMappingCount p))"
proof (intro conjI impI)
  assume "\<not> unat index < length (directMapping a)"
  then show "directMapped a index = Inl RequireFailed"
    and "setDirectMapping a index d = Inl RequireFailed"
    by (simp_all add: directMapped_def setDirectMapping_def Require_def)
next
  assume "newTextureAtlas be p m0 = Inr a0 \<and> apply_ops a0 xs = Inr a"
  then have new: "newTextureAtlas be p m0 = Inr a0" and ops: "apply_ops a0 xs = Inr a"
    by simp_all
  from apply_ops_geometry [OF ops] have "length (directMapping a) = length (directMapping a0)"
    by (simp add: geometry_def)
  with newTextureAtlas_fields(10) [OF new]
  show "length (directMapping a) = unat (directMappingCount p)" by simp
qed

text \<open>
  The atlas of scenario 6 has 4 direct-mapped slots: index 4 is rejected by both
  operations, index 3 is not.
\<close>

theorem direct_mapping_index_checked_witness:
  "newTextureAtlas [] props6 () = Inr atlas6 \<and>
   length (directMapping atlas6) = 4 \<and>
   directMapped atlas6 4 = Inl RequireFailed \<and>
   setDirectMapping atlas6 4 tile0 = Inl RequireFailed \<and>
   directMapped atlas6 3 \<noteq> Inl RequireFailed"
proof -
  have new: "newTextureAtlas [] props6 () = Inr atlas6 \<and> apply_ops atlas6 [] = Inr atlas6"
    by (simp add: newTextureAtlas_props6)
  have len: "length (directMapping atlas6) = 4" by (simp add: atlas6_def)
  have idx: "\<not> unat (4 :: u32) < length (directMapping atlas6)" by (simp add: len)
  have ok: "directMapped atlas6 3 \<noteq> Inl RequireFailed"
    by (simp add: directMapped_def Require_def len)
  from direct_mapping_index_checked [of 4 atlas6 tile0 "[]" props6 "()" atlas6 "[]"]
    new idx len ok
  show ?thesis by simp
qed

end
